theory Spec2Isabelle
  imports Complex_Main
begin

section \<open>Strings\<close>

text \<open>
  A Python \<open>str\<close> is modelled by a \<open>string\<close>, the list of its characters. The
  character classes used by the scraper (\<open>\d\<close>, \<open>\w\<close>, white space, \<open>lower()\<close>) are the
  ASCII ones; a character outside ASCII belongs to none of them. The two table labels of
  the source that are not ASCII are written as their UTF-8 bytes.
\<close>

definition is_digit :: "char \<Rightarrow> bool" where
  "is_digit c = (c \<in> set ''0123456789'')"

definition is_space :: "char \<Rightarrow> bool" where
  "is_space c = (c \<in> set [CHR '' '', CHR 0x09, CHR 0x0A, CHR 0x0B, CHR 0x0C, CHR 0x0D,
     CHR 0x1C, CHR 0x1D, CHR 0x1E, CHR 0x1F])"

definition is_word :: "char \<Rightarrow> bool" where
  "is_word c = (c \<in> set ''abcdefghijklmnopqrstuvwxyzABCDEFGHIJKLMNOPQRSTUVWXYZ0123456789_'')"

text \<open>\<open>s.strip()\<close>\<close>

definition strip :: "string \<Rightarrow> string" where
  "strip s = rev (dropWhile is_space (rev (dropWhile is_space s)))"

text \<open>\<open>s.lower()\<close>\<close>

definition lower_char :: "char \<Rightarrow> char" where
  "lower_char c =
     (case map_of (zip ''ABCDEFGHIJKLMNOPQRSTUVWXYZ'' ''abcdefghijklmnopqrstuvwxyz'') c of
        None \<Rightarrow> c
      | Some l \<Rightarrow> l)"

definition lower :: "string \<Rightarrow> string" where
  "lower s = map lower_char s"

text \<open>\<open>s.startswith(p)\<close> and \<open>sub in s\<close>\<close>

fun startswith :: "string \<Rightarrow> string \<Rightarrow> bool" where
  "startswith s [] = True"
| "startswith [] (p # ps) = False"
| "startswith (c # cs) (p # ps) = (c = p \<and> startswith cs ps)"

fun contains :: "string \<Rightarrow> string \<Rightarrow> bool" where
  "contains sub [] = (sub = [])"
| "contains sub (c # cs) = (startswith (c # cs) sub \<or> contains sub cs)"

text \<open>\<open>re.sub(r'\D', '', s)\<close> and \<open>re.sub(r"[^\d]", "", s)\<close>\<close>

definition strip_non_digits :: "string \<Rightarrow> string" where
  "strip_non_digits s = filter is_digit s"

text \<open>\<open>re.search(r'\d+', s)\<close>, with \<open>.group()\<close> as the value: the leftmost longest run of digits.\<close>

definition search_digits :: "string \<Rightarrow> string option" where
  "search_digits s =
     (let r = dropWhile (\<lambda>c. \<not> is_digit c) s
      in if r = [] then None else Some (takeWhile is_digit r))"

text \<open>\<open>re.search(r'\d{4}', s)\<close>: the leftmost four digits in a row.\<close>

fun search_d4 :: "string \<Rightarrow> string option" where
  "search_d4 (a # b # c # d # rest) =
     (if is_digit a \<and> is_digit b \<and> is_digit c \<and> is_digit d then Some [a, b, c, d]
      else search_d4 (b # c # d # rest))"
| "search_d4 _ = None"

text \<open>
  Exceptions of the Python run time that the scraper meets. \<open>LibraryError\<close> stands for any
  exception raised inside a library call (the HTML parser, the HTTP session).
\<close>

datatype exn = ValueError | AttributeError | OverflowError | LibraryError

text \<open>
  \<open>int(s)\<close> for a string that \<open>re.sub(r'\D', '', _)\<close> or a digit match has produced: on
  the empty string Python raises \<open>ValueError\<close>, otherwise the digits are read in base ten.
\<close>

definition digit_val :: "char \<Rightarrow> int" where
  "digit_val c = (case map_of (zip ''0123456789'' [0, 1, 2, 3, 4, 5, 6, 7, 8, 9]) c of
     None \<Rightarrow> 0 | Some v \<Rightarrow> v)"

definition int_of_digits :: "string \<Rightarrow> int" where
  "int_of_digits s = foldl (\<lambda>acc c. 10 * acc + digit_val c) 0 s"

definition py_int :: "string \<Rightarrow> exn + int" where
  "py_int s = (if s = [] then Inl ValueError else Inr (int_of_digits s))"

text \<open>\<open>str(n)\<close> for an integer\<close>

fun str_nat :: "nat \<Rightarrow> string" where
  "str_nat n = (if n < 10 then [''0123456789'' ! n]
                else str_nat (n div 10) @ [''0123456789'' ! (n mod 10)])"

declare str_nat.simps [simp del]

definition str_int :: "int \<Rightarrow> string" where
  "str_int i = (if i < 0 then CHR ''-'' # str_nat (nat (- i)) else str_nat (nat i))"

text \<open>Truthiness of an optional string: \<open>None\<close> and \<open>""\<close> are false.\<close>

fun truthy :: "string option \<Rightarrow> bool" where
  "truthy None = False"
| "truthy (Some s) = (s \<noteq> [])"

text \<open>\<open>a or b\<close> on optional strings\<close>

definition py_or :: "string option \<Rightarrow> string option \<Rightarrow> string option" where
  "py_or a b = (if truthy a then a else b)"

section \<open>The listing record\<close>

text \<open>
  The dataclass \<open>Car\<close>. Python does not enforce the annotations, and the builder passes
  \<open>None\<close> for \<open>make\<close>, \<open>model\<close>, \<open>mileage_km\<close>, \<open>engine_capacity\<close> and \<open>fuel_type\<close>, so
  these are optional values in the model as well. The field \<open>make\<close> is written \<open>make'\<close>.
\<close>

record car =
  link :: string
  full_name :: string
  description :: string
  year :: int
  mileage_km :: "string option"
  engine_capacity :: "string option"
  fuel_type :: "string option"
  price_pln :: int
  make' :: "string option"
  model :: "string option"
  door_count :: "string option"
  vin :: "string option"
  body_type :: "string option"
  color :: "string option"
  gearbox :: "string option"
  engine_power :: "int option"
  date_registration :: "string option"
  transmission :: "string option"
  price_indicator :: "string option"
  price_range :: "string option"
  no_accident :: "string option"
  country_origin :: "string option"
  new_used :: "string option"
  registration_date_history :: "string option"

text \<open>\<open>if self.f is None: self.f = d\<close>\<close>

definition default_to :: "'a \<Rightarrow> 'a option \<Rightarrow> 'a option" where
  "default_to d v = (case v of None \<Rightarrow> Some d | Some x \<Rightarrow> Some x)"

definition post_init :: "car \<Rightarrow> car" where
  "post_init self = self
     \<lparr> door_count := default_to ''unknown'' (door_count self),
       vin := default_to ''unknown'' (vin self),
       body_type := default_to ''unknown'' (body_type self),
       color := default_to ''unknown'' (color self),
       gearbox := default_to ''unknown'' (gearbox self),
       engine_power := default_to 0 (engine_power self),
       date_registration := default_to ''unknown'' (date_registration self),
       transmission := default_to ''unknown'' (transmission self),
       price_indicator := default_to ''unknown'' (price_indicator self),
       price_range := default_to ''unknown'' (price_range self),
       no_accident := default_to ''unknown'' (no_accident self),
       country_origin := default_to ''unknown'' (country_origin self),
       new_used := default_to ''used'' (new_used self),
       registration_date_history := default_to ''unknown'' (registration_date_history self) \<rparr>"

text \<open>
  \<open>Car(link, full_name, ..., model)\<close> with no optional field supplied: the generated
  \<open>__init__\<close> stores \<open>None\<close> in each of them and then runs \<open>__post_init__\<close>.
\<close>

definition Car_required ::
  "string \<Rightarrow> string \<Rightarrow> string \<Rightarrow> int \<Rightarrow> string option \<Rightarrow> string option \<Rightarrow> string option \<Rightarrow>
   int \<Rightarrow> string option \<Rightarrow> string option \<Rightarrow> car" where
  "Car_required l fnm d y mi ec ft p mk mo = post_init
     \<lparr> link = l, full_name = fnm, description = d, year = y, mileage_km = mi,
       engine_capacity = ec, fuel_type = ft, price_pln = p, make' = mk, model = mo,
       door_count = None, vin = None, body_type = None, color = None, gearbox = None,
       engine_power = None, date_registration = None, transmission = None,
       price_indicator = None, price_range = None, no_accident = None,
       country_origin = None, new_used = None, registration_date_history = None \<rparr>"

section \<open>The schema transformer\<close>

text \<open>The output of \<open>transform_car_to_schema\<close> is a dictionary with string keys.\<close>

datatype json = JNull | JInt int | JStr string | JObj "(string \<times> json) list"

definition opt_str :: "string option \<Rightarrow> json" where
  "opt_str v = (case v of None \<Rightarrow> JNull | Some s \<Rightarrow> JStr s)"

definition opt_int :: "int option \<Rightarrow> json" where
  "opt_int v = (case v of None \<Rightarrow> JNull | Some i \<Rightarrow> JInt i)"

text \<open>\<open>f(x) if x else d\<close> for an optional string \<open>x\<close>\<close>

definition if_truthy :: "string option \<Rightarrow> (string \<Rightarrow> string) \<Rightarrow> string \<Rightarrow> string" where
  "if_truthy v f d = (case v of None \<Rightarrow> d | Some s \<Rightarrow> if s \<noteq> [] then f s else d)"

text \<open>\<open>x and x.lower() == t\<close>\<close>

definition lower_is :: "string option \<Rightarrow> string \<Rightarrow> bool" where
  "lower_is v t = (case v of None \<Rightarrow> False | Some s \<Rightarrow> s \<noteq> [] \<and> lower s = t)"

definition transform_car_to_schema :: "car \<Rightarrow> json" where
  "transform_car_to_schema car =
     (let no_accident_value = (if lower_is (no_accident car) ''tak'' then 1 else 0)
      in JObj
       [(''params'', JObj
          [(''door_count'', opt_str (door_count car)),
           (''vin'', opt_str (vin car)),
           (''make'', JStr (if_truthy (make' car) lower [])),
           (''model'', JStr (if_truthy (model car) lower [])),
           (''is_imported_car'', JInt 0),
           (''fuel_type'', JStr (if_truthy (fuel_type car) lower [])),
           (''no_accident'', JInt no_accident_value),
           (''body_type'', opt_str (body_type car)),
           (''mileage'', JStr (if_truthy (mileage_km car) strip_non_digits [])),
           (''color'', opt_str (color car)),
           (''year'', JStr (str_int (year car))),
           (''price'', JObj
              [(''0'', JStr ''price''),
               (''1'', JStr (str_int (price_pln car))),
               (''currency'', JStr ''PLN''),
               (''gross_net'', JStr ''gross'')]),
           (''engine_capacity'', JStr (if_truthy (engine_capacity car) strip_non_digits [])),
           (''engine_power'', opt_int (engine_power car)),
           (''gearbox'', opt_str (gearbox car)),
           (''transmission'', opt_str (transmission car)),
           (''antilock_brake_system'', JNull),
           (''apple_carplay'', JNull),
           (''metallic'', JNull),
           (''country_origin'', JStr (if_truthy (country_origin car) lower ''pl'')),
           (''date_registration'',
              opt_str (py_or (registration_date_history car) (date_registration car))),
           (''has_registration'', JInt 1),
           (''cepik_authorization'', JInt 1)]),
        (''title'', JStr (full_name car)),
        (''description'', JStr (description car)),
        (''new_used'', JStr (if lower_is (new_used car) ''nowy'' then ''new'' else ''used'')),
        (''category_id'', JInt 29),
        (''url'', JStr (link car)),
        (''price_indicator'', opt_str (price_indicator car)),
        (''price_range'', opt_str (price_range car))])"

text \<open>\<open>d[k]\<close> on an output dictionary; a missing key gives \<open>None\<close> here.\<close>

definition member_of :: "json \<Rightarrow> string \<Rightarrow> json option" where
  "member_of j k = (case j of JObj kvs \<Rightarrow> map_of kvs k | _ \<Rightarrow> None)"

definition param :: "json \<Rightarrow> string \<Rightarrow> json option" where
  "param j k = (case member_of j ''params'' of None \<Rightarrow> None | Some p \<Rightarrow> member_of p k)"

section \<open>The fetch client\<close>

text \<open>
  What the site does with one request: it answers with a status and a body, or the
  request fails (\<open>session.get\<close> or \<open>response.text()\<close> raises). Both raise inside the
  \<open>try\<close> of \<open>fetch_html\<close> and are handled by the same \<open>except Exception\<close>.
\<close>

datatype response = Status int string | Failure

text \<open>
  What \<open>fetch_html\<close> does besides returning: the requests it sends, numbered by attempt,
  and its sleeps, in seconds: \<open>asyncio.sleep(5)\<close> after a 403 and \<open>asyncio.sleep(delay)\<close>
  after another failure.
\<close>

datatype fetch_event = Request nat | Sleep_403 rat | Sleep_delay rat

text \<open>The body of \<open>for attempt in range(retries)\<close>, for the attempts still to make.\<close>

fun fetch_attempts ::
  "(nat \<Rightarrow> response) \<Rightarrow> int \<Rightarrow> rat \<Rightarrow> nat list \<Rightarrow> string \<times> fetch_event list" where
  "fetch_attempts server retries delay [] = ([], [])"
| "fetch_attempts server retries delay (attempt # rest) =
     (let failed = (\<lambda>sleeps.
            (case fetch_attempts server retries delay rest of
               (text, evs) \<Rightarrow> (text, Request attempt # sleeps @ evs)));
          backoff = (if int attempt < retries - 1 then [Sleep_delay delay] else [])
      in case server attempt of
           Status status text \<Rightarrow>
             if status = 403 then failed [Sleep_403 5]
             else if status \<noteq> 200 then failed backoff
             else (text, [Request attempt])
         | Failure \<Rightarrow> failed backoff)"

definition fetch_html :: "(nat \<Rightarrow> response) \<Rightarrow> int \<Rightarrow> rat \<Rightarrow> string \<times> fetch_event list" where
  "fetch_html server retries delay = fetch_attempts server retries delay [0..<nat retries]"

text \<open>A site that answers 403 twice and then 200.\<close>

definition blocked_twice :: "nat \<Rightarrow> response" where
  "blocked_twice n = (if n < 2 then Status 403 ''Forbidden'' else Status 200 ''<html></html>'')"

section \<open>Parsed documents\<close>

text \<open>
  The tree that \<open>BeautifulSoup(html, "html.parser")\<close> returns: a text node, or a tag with
  its name, its attribute dictionary and its children. The document itself is a tag named
  \<open>[document]\<close>.
\<close>

datatype node = Text string | Tag string "(string \<times> string) list" "node list"

text \<open>All nodes below a node, in document order (the order of \<open>find_all\<close>).\<close>

fun descendants :: "node \<Rightarrow> node list" where
  "descendants (Text s) = []"
| "descendants (Tag name attrs children) = concat (map (\<lambda>c. c # descendants c) children)"

text \<open>\<open>tag.text\<close>, that is \<open>tag.get_text()\<close>: the strings below the node, concatenated.\<close>

fun get_text :: "node \<Rightarrow> string" where
  "get_text (Text s) = s"
| "get_text (Tag name attrs children) = concat (map get_text children)"

text \<open>
  \<open>tag.get_text(strip=True)\<close>: every string is stripped, the empty ones are dropped, the
  rest is concatenated.
\<close>

fun get_text_strip :: "node \<Rightarrow> string" where
  "get_text_strip (Text s) = strip s"
| "get_text_strip (Tag name attrs children) = concat (map get_text_strip children)"

definition is_tag :: "string \<Rightarrow> node \<Rightarrow> bool" where
  "is_tag name n = (case n of Text s \<Rightarrow> False | Tag m attrs children \<Rightarrow> m = name)"

definition attr :: "node \<Rightarrow> string \<Rightarrow> string option" where
  "attr n k = (case n of Text s \<Rightarrow> None | Tag m attrs children \<Rightarrow> map_of attrs k)"

text \<open>The \<open>class\<close> attribute is a list of names, split at white space.\<close>

fun split_ws :: "string \<Rightarrow> string \<Rightarrow> string list" where
  "split_ws cur [] = (if cur = [] then [] else [cur])"
| "split_ws cur (c # cs) =
     (if is_space c then (if cur = [] then split_ws [] cs else cur # split_ws [] cs)
      else split_ws (cur @ [c]) cs)"

definition classes :: "node \<Rightarrow> string list" where
  "classes n = (case attr n ''class'' of None \<Rightarrow> [] | Some v \<Rightarrow> split_ws [] v)"

text \<open>\<open>class_="name"\<close>: one of the class names is \<open>name\<close>.\<close>

definition has_class :: "string \<Rightarrow> node \<Rightarrow> bool" where
  "has_class name n = (name \<in> set (classes n))"

text \<open>\<open>class_=re.compile(pat)\<close> for a literal \<open>pat\<close>: one of the class names contains it.\<close>

definition class_contains :: "string \<Rightarrow> node \<Rightarrow> bool" where
  "class_contains pat n = list_ex (contains pat) (classes n)"

text \<open>\<open>{"data-testid": testid}\<close>\<close>

definition has_testid :: "string \<Rightarrow> node \<Rightarrow> bool" where
  "has_testid testid n = (attr n ''data-testid'' = Some testid)"

text \<open>\<open>t.find_all(...)\<close> and \<open>t.find(...)\<close> (written \<open>find_tag\<close>) for a test on tags.\<close>

definition find_all :: "node \<Rightarrow> (node \<Rightarrow> bool) \<Rightarrow> node list" where
  "find_all t P = filter P (descendants t)"

definition find_tag :: "node \<Rightarrow> (node \<Rightarrow> bool) \<Rightarrow> node option" where
  "find_tag t P = (case find_all t P of [] \<Rightarrow> None | n # ns \<Rightarrow> Some n)"

text \<open>The local function \<open>extract_data_testid_value\<close> of \<open>fetch_car_details\<close>.\<close>

definition extract_data_testid_value :: "node \<Rightarrow> string \<Rightarrow> string option" where
  "extract_data_testid_value soup testid =
     (case find_tag soup (\<lambda>n. is_tag ''div'' n \<and> has_testid testid n) of
        None \<Rightarrow> None
      | Some tag \<Rightarrow>
          (let ps = find_all tag (is_tag ''p'')
           in if length ps \<ge> 2 then Some (strip (get_text (last ps))) else None))"

definition doc :: "node list \<Rightarrow> node" where
  "doc children = Tag ''[document]'' [] children"

definition make_block_two :: node where
  "make_block_two = Tag ''div'' [(''data-testid'', ''make'')]
     [Tag ''p'' [] [Text ''Marka pojazdu''], Tag ''p'' [] [Text '' Audi '']]"

definition make_block_one :: node where
  "make_block_one = Tag ''div'' [(''data-testid'', ''make'')] [Tag ''p'' [] [Text ''Audi'']]"

section \<open>Floating-point products\<close>

text \<open>
  \<open>int(price * 0.85)\<close> multiplies in binary64. The product of the integer \<open>price\<close> and a
  literal is computed as Python does: \<open>price\<close> is converted to the nearest double, the exact
  product with the literal's double is rounded to 53 significant bits (ties to even), and
  \<open>int\<close> cuts the fraction off. A double is written \<open>m * 2 ^ e\<close> as the pair \<open>(m, e)\<close>.
\<close>

fun bitlen :: "nat \<Rightarrow> nat" where
  "bitlen n = (if n = 0 then 0 else Suc (bitlen (n div 2)))"

declare bitlen.simps [simp del]

text \<open>\<open>m / 2 ^ s\<close> rounded to the nearest integer, ties to the even one.\<close>

definition round_shift :: "nat \<Rightarrow> nat \<Rightarrow> nat" where
  "round_shift m s =
     (if s = 0 then m
      else let q = m div 2 ^ s; r = m mod 2 ^ s; h = 2 ^ (s - 1)
           in if r > h \<or> (r = h \<and> odd q) then q + 1 else q)"

text \<open>
  The double nearest to \<open>m * 2 ^ e\<close>. A value of \<open>2 ^ 1024\<close> or more has no finite double:
  the conversion of such an integer raises \<open>OverflowError\<close>, a product becomes infinite and
  \<open>int\<close> of it raises \<open>OverflowError\<close>. The values here are never subnormal.
\<close>

definition to_double :: "nat \<Rightarrow> int \<Rightarrow> exn + nat \<times> int" where
  "to_double m e =
     (let s = bitlen m - 53; m' = round_shift m s; e' = e + int s
      in if 0 \<le> e' \<and> m' * 2 ^ nat e' \<ge> 2 ^ 1024 then Inl OverflowError else Inr (m', e'))"

text \<open>\<open>int(price * c)\<close> for \<open>price \<ge> 0\<close> and the double \<open>c = cm / 2 ^ ce\<close>.\<close>

definition int_of_product :: "nat \<Rightarrow> nat \<times> nat \<Rightarrow> exn + int" where
  "int_of_product price c =
     (case to_double price 0 of
        Inl err \<Rightarrow> Inl err
      | Inr (pm, pe) \<Rightarrow>
          (case to_double (pm * fst c) (pe - int (snd c)) of
             Inl err \<Rightarrow> Inl err
           | Inr (m, e) \<Rightarrow>
               Inr (if 0 \<le> e then int (m * 2 ^ nat e) else int (m div 2 ^ nat (- e)))))"

text \<open>The literals \<open>0.85\<close>, \<open>1.15\<close>, \<open>0.9\<close> and \<open>1.1\<close> as doubles (\<open>float.as_integer_ratio\<close>).\<close>

definition lit_0_85 :: "nat \<times> nat" where "lit_0_85 = (7656119366529843, 53)"
definition lit_1_15 :: "nat \<times> nat" where "lit_1_15 = (2589569785738035, 51)"
definition lit_0_9 :: "nat \<times> nat" where "lit_0_9 = (8106479329266893, 53)"
definition lit_1_1 :: "nat \<times> nat" where "lit_1_1 = (2476979795053773, 51)"

section \<open>The price range estimate\<close>

text \<open>
  Lines 241 to 250 of \<open>fetch_car_details\<close>: the estimate for an indicator type and a price.
  The result is the text stored in \<open>price_range\<close>, or \<open>None\<close> when no branch applies.
\<close>

definition estimate_range :: "string \<Rightarrow> int \<Rightarrow> exn + string option" where
  "estimate_range indicator_type price =
     (if indicator_type = ''ABOVE'' then
        (case int_of_product (nat price) lit_0_85 of
           Inl err \<Rightarrow> Inl err
         | Inr lower_bound \<Rightarrow> Inr (Some (str_int lower_bound @ ''-'' @ str_int price @ '' PLN'')))
      else if indicator_type = ''BELOW'' then
        (case int_of_product (nat price) lit_1_15 of
           Inl err \<Rightarrow> Inl err
         | Inr upper_bound \<Rightarrow> Inr (Some (str_int price @ ''-'' @ str_int upper_bound @ '' PLN'')))
      else if indicator_type = ''IN'' then
        (case int_of_product (nat price) lit_0_9 of
           Inl err \<Rightarrow> Inl err
         | Inr lower_bound \<Rightarrow>
             (case int_of_product (nat price) lit_1_1 of
                Inl err \<Rightarrow> Inl err
              | Inr upper_bound \<Rightarrow>
                  Inr (Some (str_int lower_bound @ ''-'' @ str_int upper_bound @ '' PLN''))))
      else Inr None)"

section \<open>The interactive extractor\<close>

text \<open>
  What one browser session does when \<open>extract_vin_with_playwright\<close> drives it: for every
  awaited call of an attempt, whether it returns (and what) or raises. The calls are named
  by their source lines.
\<close>

datatype 'a outcome = Returns 'a | Raises

record session_script =
  start_playwright :: "unit outcome"
  launch :: "unit outcome"
  new_context :: "unit outcome"
  new_page :: "unit outcome"
  goto :: "unit outcome"
  consent_count :: "nat outcome"
  consent_click :: "unit outcome"
  consent_wait :: "unit outcome"
  vin_count :: "nat outcome"
  vin_text :: "string option outcome"
  close_329 :: "unit outcome"
  button_count :: "nat outcome"
  evaluate :: "unit outcome"
  wait_for_selector :: "unit outcome"
  revealed_count :: "nat outcome"
  revealed_text :: "string option outcome"
  close_348 :: "unit outcome"
  close_354 :: "unit outcome"

text \<open>
  The events of a session that matter for its release: the driver starts when the
  \<open>async with async_playwright()\<close> block is entered and stops when the block is left, by a
  return or by an exception; the browser is launched inside the block and closed by
  \<open>browser.close()\<close>. Between two attempts the function sleeps.
\<close>

datatype pw_event = Driver_started | Browser_launched | Browser_closed | Driver_stopped
  | Retry_sleep rat

text \<open>A step of the block: its result or the exception, and the events so far.\<close>

type_synonym 'a step = "(exn + 'a) \<times> pw_event list"

definition await :: "'a outcome \<Rightarrow> pw_event list \<Rightarrow> 'a step" where
  "await oc evs = (case oc of Returns v \<Rightarrow> (Inr v, evs) | Raises \<Rightarrow> (Inl LibraryError, []))"

definition and_then :: "'a step \<Rightarrow> ('a \<Rightarrow> 'b step) \<Rightarrow> 'b step" where
  "and_then m f =
     (case m of
        (Inl err, evs) \<Rightarrow> (Inl err, evs)
      | (Inr v, evs) \<Rightarrow> (case f v of (r, evs') \<Rightarrow> (r, evs @ evs')))"

text \<open>\<open>vin.strip()\<close> for the result of \<open>text_content()\<close>, which may be \<open>None\<close>.\<close>

definition strip_content :: "string option \<Rightarrow> string option step" where
  "strip_content v =
     (case v of None \<Rightarrow> (Inl AttributeError, []) | Some s \<Rightarrow> (Inr (Some (strip s)), []))"

text \<open>
  Lines 343 to 352: the inner \<open>try\<close> after the reveal button was clicked. Its result is
  \<open>Some v\<close> when the block returns \<open>v\<close>, and \<open>None\<close> when control goes on to line 354,
  because no element was found or because an exception was swallowed.
\<close>

definition reveal_block :: "session_script \<Rightarrow> string option option \<times> pw_event list" where
  "reveal_block s =
     (case and_then (await (wait_for_selector s) []) (\<lambda>_.
           and_then (await (revealed_count s) []) (\<lambda>n.
             if n > 0 then
               and_then (await (revealed_text s) []) (\<lambda>vin.
               and_then (await (close_348 s) [Browser_closed]) (\<lambda>_.
               and_then (strip_content vin) (\<lambda>v. (Inr (Some v), []))))
             else (Inr None, []))) of
        (Inl err, evs) \<Rightarrow> (None, evs)
      | (Inr r, evs) \<Rightarrow> (r, evs))"

text \<open>
  Lines 317 to 323: the consent dialogue. Every exception is swallowed, so the step always
  succeeds.
\<close>

definition dismiss_consent :: "session_script \<Rightarrow> unit step" where
  "dismiss_consent s =
     (case and_then (await (consent_count s) []) (\<lambda>n.
             if n > 0 then and_then (await (consent_click s) []) (\<lambda>_. await (consent_wait s) [])
             else (Inr (), [])) of
        (r, evs) \<Rightarrow> (Inr (), evs))"

text \<open>Lines 328 to 330: the value is on the page without a click.\<close>

definition visible_path :: "session_script \<Rightarrow> string option step" where
  "visible_path s =
     and_then (await (vin_text s) []) (\<lambda>vin.
     and_then (await (close_329 s) [Browser_closed]) (\<lambda>_. strip_content vin))"

text \<open>Lines 333 to 352: \<open>Some v\<close> when the function returns \<open>v\<close> from the inner block.\<close>

definition button_path :: "session_script \<Rightarrow> string option option step" where
  "button_path s =
     and_then (await (button_count s) []) (\<lambda>b.
       if b > 0 then
         and_then (await (evaluate s) []) (\<lambda>_.
           case reveal_block s of (r, evs) \<Rightarrow> (Inr r, evs))
       else (Inr None, []))"

text \<open>Lines 354 and 355.\<close>

definition close_and_return :: "session_script \<Rightarrow> string option step" where
  "close_and_return s =
     and_then (await (close_354 s) [Browser_closed]) (\<lambda>_. (Inr None, []))"

text \<open>
  Lines 306 to 355: the body of the \<open>async with\<close> block.
\<close>

definition session_body :: "session_script \<Rightarrow> string option step" where
  "session_body s =
     and_then (await (launch s) [Browser_launched]) (\<lambda>_.
     and_then (await (new_context s) []) (\<lambda>_.
     and_then (await (new_page s) []) (\<lambda>_.
     and_then (await (goto s) []) (\<lambda>_.
     and_then (dismiss_consent s) (\<lambda>_.
     and_then (await (vin_count s) []) (\<lambda>n.
       if n > 0 then visible_path s
       else and_then (button_path s) (\<lambda>returned.
              case returned of
                Some v \<Rightarrow> (Inr v, [])
              | None \<Rightarrow> close_and_return s)))))))"

text \<open>
  The \<open>async with\<close> statement around the body: entering starts the driver; the block is
  left through \<open>__aexit__\<close> on every path, which stops the driver.
\<close>

definition attempt_session :: "session_script \<Rightarrow> string option step" where
  "attempt_session s =
     and_then (await (start_playwright s) [Driver_started]) (\<lambda>_.
       case session_body s of (r, evs) \<Rightarrow> (r, evs @ [Driver_stopped]))"

definition max_retries :: nat where
  "max_retries = 2"

text \<open>The loop \<open>for attempt in range(max_retries + 1)\<close>, for the attempts still to make.\<close>

fun vin_attempts :: "(nat \<Rightarrow> session_script) \<Rightarrow> nat list \<Rightarrow> string option \<times> pw_event list" where
  "vin_attempts scripts [] = (None, [])"
| "vin_attempts scripts (attempt # rest) =
     (case attempt_session (scripts attempt) of
        (Inr v, evs) \<Rightarrow> (v, evs)
      | (Inl err, evs) \<Rightarrow>
          if attempt < max_retries then
            (case vin_attempts scripts rest of (v, evs') \<Rightarrow> (v, evs @ Retry_sleep 5 # evs'))
          else (None, evs))"

definition extract_vin_with_playwright ::
  "(nat \<Rightarrow> session_script) \<Rightarrow> string option \<times> pw_event list" where
  "extract_vin_with_playwright scripts = vin_attempts scripts [0..<max_retries + 1]"

text \<open>The state of the session resources after a sequence of events.\<close>

record resources =
  driver_running :: bool
  browser_open :: bool

fun after_event :: "resources \<Rightarrow> pw_event \<Rightarrow> resources" where
  "after_event r Driver_started = r\<lparr>driver_running := True\<rparr>"
| "after_event r Browser_launched = r\<lparr>browser_open := True\<rparr>"
| "after_event r Browser_closed = r\<lparr>browser_open := False\<rparr>"
| "after_event r Driver_stopped = \<lparr>driver_running = False, browser_open = False\<rparr>"
| "after_event r (Retry_sleep d) = r"

definition released :: resources where
  "released = \<lparr>driver_running = False, browser_open = False\<rparr>"

definition after_events :: "pw_event list \<Rightarrow> resources" where
  "after_events evs = foldl after_event released evs"

text \<open>Sessions for the examples.\<close>

definition visible_vin :: session_script where
  "visible_vin = \<lparr> start_playwright = Returns (), launch = Returns (), new_context = Returns (),
     new_page = Returns (), goto = Returns (), consent_count = Returns 0,
     consent_click = Returns (), consent_wait = Returns (), vin_count = Returns 1,
     vin_text = Returns (Some '' WAUZZZ8K9KA000001 ''), close_329 = Returns (),
     button_count = Returns 0, evaluate = Returns (), wait_for_selector = Returns (),
     revealed_count = Returns 0, revealed_text = Returns None, close_348 = Returns (),
     close_354 = Returns () \<rparr>"

definition goto_timeout :: session_script where
  "goto_timeout = visible_vin\<lparr>goto := Raises\<rparr>"

definition no_vin :: session_script where
  "no_vin = visible_vin\<lparr>vin_count := Returns 0\<rparr>"

section \<open>The detail record builder\<close>

text \<open>
  Everything outside the program that \<open>fetch_car_details\<close> depends on: what the site
  answers to the requests for a URL, what the HTML parser makes of a page (or that it
  raises), and how the browser sessions opened for a URL behave.
\<close>

record world =
  site :: "string \<Rightarrow> nat \<Rightarrow> response"
  parse :: "string \<Rightarrow> exn + node"
  sessions :: "string \<Rightarrow> nat \<Rightarrow> session_script"

text \<open>\<open>soup.select_one("span.offer-price__number") or soup.select_one(".offer-price")\<close>\<close>

definition offer_price_tag :: "node \<Rightarrow> node option" where
  "offer_price_tag soup =
     (case find_tag soup (\<lambda>n. is_tag ''span'' n \<and> has_class ''offer-price__number'' n) of
        Some t \<Rightarrow> Some t
      | None \<Rightarrow> find_tag soup (has_class ''offer-price''))"

text \<open>Line 148: \<open>int(re.sub(r'\D', '', price_tag.text)) if price_tag else 0\<close>\<close>

definition parse_price :: "node option \<Rightarrow> exn + int" where
  "parse_price price_tag =
     (case price_tag of None \<Rightarrow> Inr 0 | Some t \<Rightarrow> py_int (strip_non_digits (get_text t)))"

text \<open>Lines 139 and 140\<close>

definition page_full_name :: "node \<Rightarrow> string" where
  "page_full_name soup =
     (case find_tag soup (is_tag ''h1'') of None \<Rightarrow> ''unknown'' | Some h \<Rightarrow> strip (get_text h))"

text \<open>\<open>sep.join(xs)\<close>\<close>

fun join :: "string \<Rightarrow> string list \<Rightarrow> string" where
  "join sep [] = []"
| "join sep [x] = x"
| "join sep (x # y # ys) = x @ sep @ join sep (y # ys)"

text \<open>Lines 142 to 145\<close>

definition page_description :: "node \<Rightarrow> string" where
  "page_description soup =
     (case find_tag soup (\<lambda>n. is_tag ''div'' n \<and> has_testid ''content-description-section'' n) of
        None \<Rightarrow> []
      | Some desc_section \<Rightarrow>
          join [CHR 0x0A] (map get_text_strip (find_all desc_section (is_tag ''p''))))"

text \<open>Lines 179 to 184: the engine power from the keyed lookup.\<close>

definition first_int :: "string \<Rightarrow> int option" where
  "first_int s = (case search_digits s of None \<Rightarrow> None | Some d \<Rightarrow> Some (int_of_digits d))"

definition keyed_engine_power :: "node \<Rightarrow> int option" where
  "keyed_engine_power soup =
     (case extract_data_testid_value soup ''engine_power'' of
        None \<Rightarrow> None
      | Some engine_power_text \<Rightarrow> if engine_power_text \<noteq> [] then first_int engine_power_text else None)"

text \<open>
  Lines 186 to 195: the labels give \<open>(fuel_type, mileage, engine_capacity)\<close>; a later label
  of a kind replaces an earlier one.
\<close>

definition fuels :: "string list" where
  "fuels = [''benzyna'', ''diesel'', ''hybryda'', ''elektryczny'', ''lpg'', ''cng'']"

definition scan_label ::
  "string option \<times> string option \<times> string option \<Rightarrow> node \<Rightarrow>
   string option \<times> string option \<times> string option" where
  "scan_label st label =
     (case st of (fuel, mileage, capacity) \<Rightarrow>
        (let text = get_text_strip label
         in if contains ''km'' text then (fuel, Some text, capacity)
            else if contains ''cm3'' text then (fuel, mileage, Some text)
            else if lower text \<in> set fuels then (Some text, mileage, capacity)
            else st))"

definition detail_labels :: "node \<Rightarrow> string option \<times> string option \<times> string option" where
  "detail_labels soup =
     foldl scan_label (None, None, None)
       (find_all soup (\<lambda>n. is_tag ''p'' n \<and> class_contains ''ooa-11fwepm'' n))"

text \<open>Lines 198 to 203: the legacy table, a dictionary from lower-cased labels to values.\<close>

definition add_detail :: "(string \<rightharpoonup> string) \<Rightarrow> node \<Rightarrow> (string \<rightharpoonup> string)" where
  "add_detail details item =
     (case find_tag item (\<lambda>n. is_tag ''span'' n \<and> has_class ''offer-params__label'' n) of
        None \<Rightarrow> details
      | Some label \<Rightarrow>
          (case find_tag item (\<lambda>n. is_tag ''div'' n \<and> has_class ''offer-params__value'' n) of
             None \<Rightarrow> details
           | Some val \<Rightarrow> details(lower (strip (get_text label)) \<mapsto> strip (get_text val))))"

definition legacy_details :: "node \<Rightarrow> (string \<rightharpoonup> string)" where
  "legacy_details soup =
     foldl add_detail Map.empty
       (find_all soup (\<lambda>n. is_tag ''div'' n \<and> has_class ''offer-params__item'' n))"

text \<open>Lines 205 and 206\<close>

definition page_year :: "node \<Rightarrow> (string \<rightharpoonup> string) \<Rightarrow> int" where
  "page_year soup details =
     (case py_or (details ''rok produkcji'') (extract_data_testid_value soup ''year'') of
        None \<Rightarrow> 0
      | Some year_text \<Rightarrow>
          (case search_d4 year_text of None \<Rightarrow> 0 | Some d \<Rightarrow> int_of_digits d))"

text \<open>Lines 208 to 211: \<open>not engine_power\<close> holds for \<open>None\<close> and for \<open>0\<close>.\<close>

definition page_engine_power :: "node \<Rightarrow> (string \<rightharpoonup> string) \<Rightarrow> int option" where
  "page_engine_power soup details =
     (let power = keyed_engine_power soup
      in if (power = None \<or> power = Some 0) \<and> truthy (details ''moc'') then
           (case details ''moc'' of
              None \<Rightarrow> power
            | Some moc \<Rightarrow> (case first_int moc of None \<Rightarrow> power | Some p \<Rightarrow> Some p))
         else power)"

text \<open>
  Line 229: group 1 of \<open>re.search(r'price-indicator-label-(\w+)', s)\<close>, the word after the
  leftmost occurrence of the prefix that a word character follows.
\<close>

definition indicator_prefix :: string where
  "indicator_prefix = ''price-indicator-label-''"

fun search_indicator :: "string \<Rightarrow> string option" where
  "search_indicator [] = None"
| "search_indicator (c # cs) =
     (let w = takeWhile is_word (drop (length indicator_prefix) (c # cs))
      in if startswith (c # cs) indicator_prefix \<and> w \<noteq> [] then Some w
         else search_indicator cs)"

text \<open>\<open>except (ValueError, AttributeError)\<close> around the estimate: these two are swallowed.\<close>

definition except_value_attribute :: "exn + string option \<Rightarrow> exn + string option" where
  "except_value_attribute r =
     (case r of
        Inl err \<Rightarrow> if err = ValueError \<or> err = AttributeError then Inr None else Inl err
      | Inr v \<Rightarrow> Inr v)"

text \<open>Lines 222 to 252: \<open>(price_indicator, price_range)\<close>.\<close>

definition page_price_indicator :: "node \<Rightarrow> exn + string option \<times> string option" where
  "page_price_indicator soup =
     (case find_tag soup (\<lambda>n. is_tag ''p'' n \<and>
             (case attr n ''data-testid'' of None \<Rightarrow> False
              | Some v \<Rightarrow> contains indicator_prefix v)) of
        None \<Rightarrow> Inr (None, None)
      | Some price_indicator_tag \<Rightarrow>
          (let indicator = Some (strip (get_text price_indicator_tag));
               data_testid = (case attr price_indicator_tag ''data-testid'' of
                                None \<Rightarrow> [] | Some v \<Rightarrow> v)
           in case (search_indicator data_testid, offer_price_tag soup) of
                (Some indicator_type, Some price_tag) \<Rightarrow>
                  (case except_value_attribute
                          (case py_int (strip_non_digits (get_text price_tag)) of
                             Inl err \<Rightarrow> Inl err
                           | Inr price \<Rightarrow> estimate_range indicator_type price) of
                     Inl err \<Rightarrow> Inl err
                   | Inr estimate \<Rightarrow> Inr (indicator, estimate))
              | _ \<Rightarrow> Inr (indicator, None)))"

text \<open>Lines 256 to 260: the static \<open>advert-vin\<close> block.\<close>

definition static_vin :: "node \<Rightarrow> string option" where
  "static_vin soup =
     (case find_tag soup (\<lambda>n. is_tag ''div'' n \<and> has_testid ''advert-vin'' n) of
        None \<Rightarrow> None
      | Some vin_div \<Rightarrow>
          (case find_tag vin_div (is_tag ''p'') of
             None \<Rightarrow> None
           | Some vin_p \<Rightarrow> Some (strip (get_text vin_p))))"

text \<open>
  Lines 214 and 255 to 266: the VIN, from the result of the interactive extractor, the
  document and the legacy table.
\<close>

definition resolve_vin ::
  "string option \<Rightarrow> node \<Rightarrow> (string \<rightharpoonup> string) \<Rightarrow> string option" where
  "resolve_vin interactive soup details =
     (if \<not> truthy interactive then
        (let v = (case static_vin soup of None \<Rightarrow> interactive | Some t \<Rightarrow> Some t);
             v = (if \<not> truthy v then extract_data_testid_value soup ''vin'' else v);
             v = (if \<not> truthy v \<and> truthy (details ''vin'') then details ''vin'' else v)
         in v)
      else interactive)"

text \<open>\<open>x if x else None\<close>\<close>

definition or_none :: "string option \<Rightarrow> string option" where
  "or_none v = (if truthy v then v else None)"

text \<open>The two labels of the legacy table with a letter outside ASCII, in UTF-8.\<close>

definition key_gearbox :: string where
  "key_gearbox = ''skrzynia bieg'' @ [CHR 0xC3, CHR 0xB3] @ ''w''"

definition key_transmission :: string where
  "key_transmission = ''nap'' @ [CHR 0xC4, CHR 0x99] @ ''d''"

text \<open>Lines 269 to 294: the call \<open>Car(...)\<close>, which ends with \<open>__post_init__\<close>.\<close>

definition build_car ::
  "string \<Rightarrow> node \<Rightarrow> (string \<rightharpoonup> string) \<Rightarrow> int \<Rightarrow> string option \<Rightarrow>
   string option \<times> string option \<Rightarrow> car" where
  "build_car url soup details price interactive indicator_estimate =
     (case detail_labels soup of (fuel, mileage, capacity) \<Rightarrow>
        post_init
          \<lparr> link = url,
            full_name = page_full_name soup,
            description = page_description soup,
            year = page_year soup details,
            mileage_km = or_none mileage,
            engine_capacity = or_none capacity,
            fuel_type = or_none fuel,
            price_pln = price,
            make' = extract_data_testid_value soup ''make'',
            model = extract_data_testid_value soup ''model'',
            door_count = py_or (extract_data_testid_value soup ''door_count'')
                           (details ''liczba drzwi''),
            vin = resolve_vin interactive soup details,
            body_type = py_or (extract_data_testid_value soup ''body_type'')
                          (details ''nadwozie''),
            color = py_or (extract_data_testid_value soup ''color'') (details ''kolor''),
            gearbox = py_or (extract_data_testid_value soup ''gearbox'') (details key_gearbox),
            engine_power = page_engine_power soup details,
            date_registration = py_or (extract_data_testid_value soup ''first_registration'')
                                  (details ''pierwsza rejestracja''),
            transmission = py_or (extract_data_testid_value soup ''transmission'')
                             (details key_transmission),
            price_indicator = fst indicator_estimate,
            price_range = snd indicator_estimate,
            no_accident = extract_data_testid_value soup ''no_accident'',
            country_origin = extract_data_testid_value soup ''country_origin'',
            new_used = extract_data_testid_value soup ''new_used'',
            registration_date_history = extract_data_testid_value soup ''date_registration'' \<rparr>)"

text \<open>
  The \<open>try\<close> block of \<open>fetch_car_details\<close>: the record, or the exception that leaves the
  block.
\<close>

definition fetch_car_details_body :: "world \<Rightarrow> string \<Rightarrow> exn + car" where
  "fetch_car_details_body w url =
     (let html = fst (fetch_html (site w url) 2 1)
      in case parse w html of
           Inl err \<Rightarrow> Inl err
         | Inr soup \<Rightarrow>
             (case parse_price (offer_price_tag soup) of
                Inl err \<Rightarrow> Inl err
              | Inr price \<Rightarrow>
                  (let details = legacy_details soup;
                       interactive = fst (extract_vin_with_playwright (sessions w url))
                   in case page_price_indicator soup of
                        Inl err \<Rightarrow> Inl err
                      | Inr indicator_estimate \<Rightarrow>
                          Inr (build_car url soup details price interactive
                                 indicator_estimate))))"

text \<open>\<open>fetch_car_details\<close>: \<open>except Exception\<close> turns every exception into \<open>None\<close>.\<close>

definition fetch_car_details :: "world \<Rightarrow> string \<Rightarrow> car option" where
  "fetch_car_details w url =
     (case fetch_car_details_body w url of Inl err \<Rightarrow> None | Inr car \<Rightarrow> Some car)"

section \<open>The batch scheduler\<close>

text \<open>
  What the loop of \<open>scrape\<close> does besides collecting records: \<open>Gather chunk\<close> is one
  \<open>asyncio.gather\<close> over the builder invocations for the links of \<open>chunk\<close>, which returns when
  all of them have returned; \<open>Pause d\<close> is \<open>asyncio.sleep(d)\<close>.
\<close>

datatype sched_event = Gather "string list" | Pause rat

definition chunk_size :: nat where
  "chunk_size = 8"

text \<open>
  Lines 383 to 390, from index \<open>i\<close> on: \<open>for i in range(0, len(all_links), chunk_size)\<close>.
\<close>

function batch_loop ::
  "(string \<Rightarrow> car option) \<Rightarrow> string list \<Rightarrow> nat \<Rightarrow> car list \<times> sched_event list \<Rightarrow>
   car list \<times> sched_event list" where
  "batch_loop build all_links i acc =
     (if i < length all_links then
        (let chunk = take chunk_size (drop i all_links);
             chunk_results = map build chunk;
             cars = fst acc @ map the (filter (\<lambda>car. car \<noteq> None) chunk_results);
             evs = snd acc @ [Gather chunk] @
                   (if i + chunk_size < length all_links then [Pause (1 / 2)] else [])
         in batch_loop build all_links (i + chunk_size) (cars, evs))
      else acc)"
  by pat_completeness auto
termination
  by (relation "measure (\<lambda>(build, all_links, i, acc). length all_links - i)")
     (auto simp: chunk_size_def)

declare batch_loop.simps [simp del]

definition process_links ::
  "(string \<Rightarrow> car option) \<Rightarrow> string list \<Rightarrow> car list \<times> sched_event list" where
  "process_links build all_links = batch_loop build all_links 0 ([], [])"

section \<open>The retry accounting, stated\<close>

text \<open>
  The accounting of attempts in words: an attempt succeeds when the answer has status 200;
  a failed attempt is its request followed by its sleep.
\<close>

definition is_ok :: "response \<Rightarrow> bool" where
  "is_ok r = (case r of Status status text \<Rightarrow> status = 200 | Failure \<Rightarrow> False)"

definition body_of :: "response \<Rightarrow> string" where
  "body_of r = (case r of Status status text \<Rightarrow> text | Failure \<Rightarrow> [])"

definition failed_attempt :: "(nat \<Rightarrow> response) \<Rightarrow> int \<Rightarrow> rat \<Rightarrow> nat \<Rightarrow> fetch_event list" where
  "failed_attempt server retries delay a =
     (let backoff = (if int a < retries - 1 then [Sleep_delay delay] else [])
      in Request a #
           (case server a of
              Status status text \<Rightarrow> if status = 403 then [Sleep_403 5] else backoff
            | Failure \<Rightarrow> backoff))"

definition is_request :: "fetch_event \<Rightarrow> bool" where
  "is_request e = (case e of Request a \<Rightarrow> True | _ \<Rightarrow> False)"

section \<open>The first success of a list of sources\<close>

text \<open>A source succeeds when it gives a value that is not empty.\<close>

fun first_success :: "string option list \<Rightarrow> string option" where
  "first_success [] = None"
| "first_success (s # ss) = (if truthy s then s else first_success ss)"

section \<open>The batch shape, stated\<close>

text \<open>
  The consecutive chunks of a list, each of \<open>n\<close> elements but possibly the last, and a
  sequence of events with a pause of half a second after each but the last.
\<close>

fun chunked :: "nat \<Rightarrow> 'a list \<Rightarrow> 'a list list" where
  "chunked n xs = (if n = 0 \<or> xs = [] then [] else take n xs # chunked n (drop n xs))"

declare chunked.simps [simp del]

fun paced :: "sched_event list \<Rightarrow> sched_event list" where
  "paced [] = []"
| "paced [e] = [e]"
| "paced (e # e' # es) = e # Pause (1 / 2) # paced (e' # es)"

definition is_pause :: "sched_event \<Rightarrow> bool" where
  "is_pause e = (case e of Pause d \<Rightarrow> True | Gather chunk \<Rightarrow> False)"

text \<open>The records of the links whose builder invocation gave one, in the order of the links.\<close>

definition built :: "(string \<Rightarrow> car option) \<Rightarrow> string list \<Rightarrow> car list" where
  "built build ls = map the (filter (\<lambda>r. r \<noteq> None) (map build ls))"

section \<open>Session release, stated\<close>

text \<open>
  A sequence of events is bracketed when every driver start is followed by its stop before
  the next start, the next sleep or the end, and the browser is launched and closed only
  in between. The flag says whether a block is open.
\<close>

fun bracketed :: "bool \<Rightarrow> pw_event list \<Rightarrow> bool" where
  "bracketed inside [] = (\<not> inside)"
| "bracketed inside (Driver_started # es) = (\<not> inside \<and> bracketed True es)"
| "bracketed inside (Driver_stopped # es) = (inside \<and> bracketed False es)"
| "bracketed inside (Browser_launched # es) = (inside \<and> bracketed inside es)"
| "bracketed inside (Browser_closed # es) = (inside \<and> bracketed inside es)"
| "bracketed inside (Retry_sleep d # es) = (\<not> inside \<and> bracketed inside es)"

definition is_start :: "pw_event \<Rightarrow> bool" where
  "is_start e = (e = Driver_started)"

section \<open>Example pages\<close>

definition p_tag :: "string \<Rightarrow> node" where
  "p_tag s = Tag ''p'' [] [Text s]"

definition keyed_block :: "string \<Rightarrow> string \<Rightarrow> string \<Rightarrow> node" where
  "keyed_block testid label val =
     Tag ''div'' [(''data-testid'', testid)] [p_tag label, p_tag val]"

definition price_span :: "string \<Rightarrow> node" where
  "price_span s = Tag ''span'' [(''class'', ''offer-price__number'')] [Text s]"

definition audi_page :: node where
  "audi_page = doc
     [Tag ''h1'' [] [Text '' Audi A4 ''],
      price_span ''100 000'',
      keyed_block ''make'' ''Marka pojazdu'' ''Audi'',
      keyed_block ''engine_power'' ''Moc'' ''150 KM'',
      keyed_block ''year'' ''Rok produkcji'' ''2019'',
      keyed_block ''vin'' ''VIN'' ''STATIC0000000KEYED'',
      Tag ''div'' [(''data-testid'', ''advert-vin'')] [p_tag ''STATIC00000ADVERT''],
      Tag ''p'' [(''class'', ''ez0zock2 ooa-11fwepm'')] [Text ''123 456 km''],
      Tag ''p'' [(''class'', ''ooa-11fwepm'')] [Text ''Diesel''],
      Tag ''p'' [(''data-testid'', ''price-indicator-label-BELOW'')] [Text ''Ponizej sredniej'']]"

definition empty_page :: node where
  "empty_page = doc []"

definition ask_price_page :: node where
  "ask_price_page = doc [Tag ''h1'' [] [Text ''Audi A4''], price_span ''Zapytaj o cene'']"

definition ok_site :: "string \<Rightarrow> nat \<Rightarrow> response" where
  "ok_site url n = Status 200 url"

definition pages :: "string \<Rightarrow> exn + node" where
  "pages html =
     (if html = ''audi'' then Inr audi_page
      else if html = ''ask'' then Inr ask_price_page
      else if html = ''broken'' then Inl LibraryError
      else Inr empty_page)"

definition world0 :: world where
  "world0 = \<lparr> site = ok_site, parse = pages, sessions = (\<lambda>url n. no_vin) \<rparr>"

definition world1 :: world where
  "world1 = \<lparr> site = ok_site, parse = pages, sessions = (\<lambda>url n. visible_vin) \<rparr>"

text \<open>A record as the builder produces it, used to run the transformer.\<close>

definition car0 :: car where
  "car0 = \<lparr> link = ''https://www.otomoto.pl/osobowe/oferta/audi-a4-ID1.html'',
     full_name = ''Audi A4'', description = ''Stan idealny'', year = 2019,
     mileage_km = Some ''123 456 km'', engine_capacity = Some ''1 968 cm3'',
     fuel_type = Some ''Diesel'', price_pln = 100000, make' = Some ''Audi'', model = Some ''A4'',
     door_count = Some ''5'', vin = Some ''WAUZZZ8K9KA000001'', body_type = Some ''Sedan'',
     color = Some ''Czarny'', gearbox = Some ''Manualna'', engine_power = Some 150,
     date_registration = Some ''unknown'', transmission = Some ''unknown'',
     price_indicator = Some ''unknown'', price_range = Some ''unknown'',
     no_accident = Some ''TAK'', country_origin = None, new_used = Some ''Nie'',
     registration_date_history = Some ''unknown'' \<rparr>"

text \<open>Seventeen links, the fourth of which leads to a page whose price cannot be read.\<close>

definition links17 :: "string list" where
  "links17 = [''audi'', ''audi'', ''none'', ''ask'', ''audi'', ''audi'', ''audi'', ''audi'',
     ''audi'', ''audi'', ''audi'', ''audi'', ''audi'', ''audi'', ''audi'', ''audi'',
     ''none'']"

definition always_forbidden :: "nat \<Rightarrow> response" where
  "always_forbidden n = Status 403 ''Forbidden''"

text \<open>A site whose first two navigations time out and whose third shows the VIN.\<close>

definition timeout_twice :: "nat \<Rightarrow> session_script" where
  "timeout_twice n = (if n < 2 then goto_timeout else visible_vin)"

text \<open>The same parser behind a site that answers every request with 403.\<close>

definition world_forbidden :: world where
  "world_forbidden = \<lparr> site = (\<lambda>url. always_forbidden), parse = pages,
     sessions = (\<lambda>url n. no_vin) \<rparr>"

section \<open>Properties of the transformer\<close>

lemma if_truthy_lower: "if_truthy v lower [] = (case v of None \<Rightarrow> [] | Some s \<Rightarrow> lower s)"
  by (simp add: if_truthy_def lower_def split: option.splits)

lemma if_truthy_digits:
  "if_truthy v strip_non_digits [] = (case v of None \<Rightarrow> [] | Some s \<Rightarrow> filter is_digit s)"
  by (simp add: if_truthy_def strip_non_digits_def split: option.splits)

lemma if_truthy_pl:
  "if_truthy v lower ''pl'' =
     (case v of None \<Rightarrow> ''pl'' | Some s \<Rightarrow> if s = [] then ''pl'' else lower s)"
  by (simp add: if_truthy_def split: option.splits)

lemma lower_is_tak: "lower_is v ''tak'' = (\<exists>s. v = Some s \<and> lower s = lower ''Tak'')"
  by (auto simp: lower_is_def lower_def lower_char_def split: option.splits)

lemma lower_is_nowy: "lower_is v ''nowy'' = (\<exists>s. v = Some s \<and> lower s = lower ''Nowy'')"
  by (auto simp: lower_is_def lower_def lower_char_def split: option.splits)

lemma param_make:
  "param (transform_car_to_schema c) ''make'' = Some (JStr (if_truthy (make' c) lower []))"
  by (simp add: param_def member_of_def transform_car_to_schema_def)

lemma param_model:
  "param (transform_car_to_schema c) ''model'' = Some (JStr (if_truthy (model c) lower []))"
  by (simp add: param_def member_of_def transform_car_to_schema_def)

lemma param_fuel_type:
  "param (transform_car_to_schema c) ''fuel_type'' =
     Some (JStr (if_truthy (fuel_type c) lower []))"
  by (simp add: param_def member_of_def transform_car_to_schema_def)

lemma param_country_origin:
  "param (transform_car_to_schema c) ''country_origin'' =
     Some (JStr (if_truthy (country_origin c) lower ''pl''))"
  by (simp add: param_def member_of_def transform_car_to_schema_def)

lemma param_mileage:
  "param (transform_car_to_schema c) ''mileage'' =
     Some (JStr (if_truthy (mileage_km c) strip_non_digits []))"
  by (simp add: param_def member_of_def transform_car_to_schema_def)

lemma param_engine_capacity:
  "param (transform_car_to_schema c) ''engine_capacity'' =
     Some (JStr (if_truthy (engine_capacity c) strip_non_digits []))"
  by (simp add: param_def member_of_def transform_car_to_schema_def)

lemma param_no_accident:
  "param (transform_car_to_schema c) ''no_accident'' =
     Some (JInt (if lower_is (no_accident c) ''tak'' then 1 else 0))"
  by (simp add: param_def member_of_def transform_car_to_schema_def)

lemma member_new_used:
  "member_of (transform_car_to_schema c) ''new_used'' =
     Some (JStr (if lower_is (new_used c) ''nowy'' then ''new'' else ''used''))"
  by (simp add: member_of_def transform_car_to_schema_def)

lemma param_flags:
  "param (transform_car_to_schema c) ''antilock_brake_system'' = Some JNull"
  "param (transform_car_to_schema c) ''apple_carplay'' = Some JNull"
  "param (transform_car_to_schema c) ''metallic'' = Some JNull"
  by (simp_all add: param_def member_of_def transform_car_to_schema_def)

text \<open>
  C9. For every record, the transformer lower-cases make, model, fuel_type and
  country_origin, with \<open>"pl"\<close> for an absent or empty country_origin; mileage and
  engine_capacity keep their digits only; no_accident is 1 exactly when the stored string
  equals \<open>"Tak"\<close> up to case, and 0 otherwise, absent included; new_used is \<open>"new"\<close>
  exactly when the stored string equals \<open>"Nowy"\<close> up to case, and \<open>"used"\<close> otherwise; the
  flags antilock_brake_system, apple_carplay and metallic are null.
\<close>

theorem transform_car_to_schema_mapping:
  "param (transform_car_to_schema c) ''make'' =
     Some (JStr (case make' c of None \<Rightarrow> [] | Some s \<Rightarrow> lower s))
   \<and> param (transform_car_to_schema c) ''model'' =
     Some (JStr (case model c of None \<Rightarrow> [] | Some s \<Rightarrow> lower s))
   \<and> param (transform_car_to_schema c) ''fuel_type'' =
     Some (JStr (case fuel_type c of None \<Rightarrow> [] | Some s \<Rightarrow> lower s))
   \<and> param (transform_car_to_schema c) ''country_origin'' =
     Some (JStr (case country_origin c of None \<Rightarrow> ''pl''
                 | Some s \<Rightarrow> if s = [] then ''pl'' else lower s))
   \<and> param (transform_car_to_schema c) ''mileage'' =
     Some (JStr (case mileage_km c of None \<Rightarrow> [] | Some s \<Rightarrow> filter is_digit s))
   \<and> param (transform_car_to_schema c) ''engine_capacity'' =
     Some (JStr (case engine_capacity c of None \<Rightarrow> [] | Some s \<Rightarrow> filter is_digit s))
   \<and> param (transform_car_to_schema c) ''no_accident'' =
     Some (JInt (if (\<exists>s. no_accident c = Some s \<and> lower s = lower ''Tak'') then 1 else 0))
   \<and> member_of (transform_car_to_schema c) ''new_used'' =
     Some (JStr (if (\<exists>s. new_used c = Some s \<and> lower s = lower ''Nowy'')
                 then ''new'' else ''used''))
   \<and> param (transform_car_to_schema c) ''antilock_brake_system'' = Some JNull
   \<and> param (transform_car_to_schema c) ''apple_carplay'' = Some JNull
   \<and> param (transform_car_to_schema c) ''metallic'' = Some JNull"
  unfolding param_make param_model param_fuel_type param_country_origin param_mileage
    param_engine_capacity param_no_accident member_new_used param_flags
    if_truthy_lower if_truthy_digits if_truthy_pl lower_is_tak lower_is_nowy
  by simp

theorem transform_car_to_schema_mapping_witness:
  "param (transform_car_to_schema car0) ''make'' = Some (JStr ''audi'')
   \<and> param (transform_car_to_schema car0) ''model'' = Some (JStr ''a4'')
   \<and> param (transform_car_to_schema car0) ''fuel_type'' = Some (JStr ''diesel'')
   \<and> param (transform_car_to_schema car0) ''country_origin'' = Some (JStr ''pl'')
   \<and> param (transform_car_to_schema car0) ''mileage'' = Some (JStr ''123456'')
   \<and> param (transform_car_to_schema car0) ''engine_capacity'' = Some (JStr ''19683'')
   \<and> param (transform_car_to_schema car0) ''no_accident'' = Some (JInt 1)
   \<and> member_of (transform_car_to_schema car0) ''new_used'' = Some (JStr ''used'')
   \<and> param (transform_car_to_schema car0) ''metallic'' = Some JNull"
  using transform_car_to_schema_mapping [of car0]
  by (simp add: car0_def lower_def lower_char_def is_digit_def)

section \<open>Properties of the fetch client\<close>

lemma fetch_attempts_ok:
  "is_ok (server a) \<Longrightarrow>
   fetch_attempts server retries delay (a # as) = (body_of (server a), [Request a])"
  by (cases "server a") (simp_all add: is_ok_def body_of_def)

lemma fetch_attempts_failed:
  "\<not> is_ok (server a) \<Longrightarrow>
   fetch_attempts server retries delay (a # as) =
     (fst (fetch_attempts server retries delay as),
      failed_attempt server retries delay a @ snd (fetch_attempts server retries delay as))"
  by (cases "server a")
     (simp_all add: is_ok_def failed_attempt_def Let_def split: prod.splits)

lemma fetch_attempts_first_ok:
  "fetch_attempts server retries delay as =
     (case dropWhile (\<lambda>a. \<not> is_ok (server a)) as of
        [] \<Rightarrow> ([], concat (map (failed_attempt server retries delay) as))
      | k # rest \<Rightarrow>
          (body_of (server k),
           concat (map (failed_attempt server retries delay)
             (takeWhile (\<lambda>a. \<not> is_ok (server a)) as)) @ [Request k]))"
proof (induction as)
  case Nil
  show ?case by simp
next
  case (Cons a as)
  show ?case
  proof (cases "is_ok (server a)")
    case True
    then show ?thesis
      by (simp add: fetch_attempts_ok del: fetch_attempts.simps)
  next
    case False
    show ?thesis
    proof (cases "dropWhile (\<lambda>a. \<not> is_ok (server a)) as")
      case Nil
      with False Cons.IH show ?thesis
        by (simp add: fetch_attempts_failed del: fetch_attempts.simps dropWhile_eq_Nil_conv)
    next
      case (Cons k rest)
      with False Cons.IH show ?thesis
        by (simp add: fetch_attempts_failed del: fetch_attempts.simps)
    qed
  qed
qed

lemma failed_attempt_requests:
  "length (filter is_request (failed_attempt server retries delay a)) = 1"
  by (simp add: failed_attempt_def is_request_def Let_def split: response.splits)

lemma fetch_attempts_requests:
  "length (filter is_request (snd (fetch_attempts server retries delay as))) \<le> length as"
proof (induction as)
  case Nil
  show ?case by simp
next
  case (Cons a as)
  show ?case
  proof (cases "is_ok (server a)")
    case True
    then show ?thesis
      by (simp add: fetch_attempts_ok is_request_def del: fetch_attempts.simps)
  next
    case False
    then show ?thesis
      using Cons.IH
      by (simp add: fetch_attempts_failed failed_attempt_requests del: fetch_attempts.simps)
  qed
qed

lemma fetch_html_blocked_twice_3:
  "fetch_html blocked_twice 3 1 =
     (''<html></html>'', [Request 0, Sleep_403 5, Request 1, Sleep_403 5, Request 2])"
  by (simp add: fetch_html_def blocked_twice_def upt_rec)

text \<open>
  C2, as amended. Every attempt uses up one of the \<open>retries\<close> attempts, one answered
  with 403 included: the requests are numbered from 0, they stop at the first answer with
  status 200, whose text is returned, or after \<open>retries\<close> requests, when the result is
  empty. After a 403 the client sleeps 5 seconds, also after the last attempt; after any
  other failed attempt it sleeps \<open>delay\<close> seconds unless the attempt was the last. With 403
  on the first two requests, 200 on the third and three attempts, the fetch succeeds after
  exactly two sleeps of 5 seconds and no sleep of \<open>delay\<close>.
\<close>

theorem fetch_html_retry_accounting:
  "fetch_html server retries delay =
     (case dropWhile (\<lambda>a. \<not> is_ok (server a)) [0..<nat retries] of
        [] \<Rightarrow> ([], concat (map (failed_attempt server retries delay) [0..<nat retries]))
      | k # rest \<Rightarrow>
          (body_of (server k),
           concat (map (failed_attempt server retries delay)
             (takeWhile (\<lambda>a. \<not> is_ok (server a)) [0..<nat retries])) @ [Request k]))
   \<and> length (filter is_request (snd (fetch_html server retries delay))) \<le> nat retries
   \<and> fetch_html blocked_twice 3 1 =
       (''<html></html>'', [Request 0, Sleep_403 5, Request 1, Sleep_403 5, Request 2])"
  using fetch_attempts_first_ok [of server retries delay "[0..<nat retries]"]
    fetch_attempts_requests [of server retries delay "[0..<nat retries]"]
    fetch_html_blocked_twice_3
  by (simp add: fetch_html_def)

theorem fetch_html_retry_accounting_witness:
  "fetch_html blocked_twice 2 1 = ([], [Request 0, Sleep_403 5, Request 1, Sleep_403 5])
   \<and> length (filter is_request (snd (fetch_html blocked_twice 2 1))) \<le> 2"
  using fetch_html_retry_accounting [of blocked_twice 2 1]
  by (simp add: blocked_twice_def is_ok_def failed_attempt_def is_request_def upt_rec)

text \<open>
  C2 as stated fails: with two attempts, two answers of 403 use both up, the third answer
  (200) is never requested and the result is empty.
\<close>

theorem fetch_html_403_counts_counterexample:
  "fetch_html blocked_twice 2 1 = ([], [Request 0, Sleep_403 5, Request 1, Sleep_403 5])"
  by (simp add: fetch_html_def blocked_twice_def upt_rec)

section \<open>Properties of the keyed lookup\<close>

text \<open>
  C4, as amended. The lookup takes the first \<open>div\<close> of the document, in document order,
  whose \<open>data-testid\<close> equals the key. If that block holds at least two \<open>p\<close> nodes, the
  result is the stripped text of the last of them; if it holds fewer than two, or if there
  is no such block, the result is absent.
\<close>

theorem extract_data_testid_value_last_p:
  "extract_data_testid_value soup testid =
     (case filter (\<lambda>n. is_tag ''div'' n \<and> attr n ''data-testid'' = Some testid)
             (descendants soup) of
        [] \<Rightarrow> None
      | block # others \<Rightarrow>
          (if 2 \<le> length (filter (is_tag ''p'') (descendants block))
           then Some (strip (get_text (last (filter (is_tag ''p'') (descendants block)))))
           else None))"
  by (simp add: extract_data_testid_value_def find_tag_def find_all_def has_testid_def Let_def
      split: list.splits)

theorem extract_data_testid_value_last_p_witness:
  "extract_data_testid_value (doc [make_block_two]) ''make'' = Some ''Audi''
   \<and> extract_data_testid_value (doc [make_block_two]) ''model'' = None"
  using extract_data_testid_value_last_p [of "doc [make_block_two]" "''make''"]
    extract_data_testid_value_last_p [of "doc [make_block_two]" "''model''"]
  by (simp add: doc_def make_block_two_def is_tag_def attr_def strip_def is_space_def)

text \<open>
  C4 as stated fails: a block with the key and a single \<open>p\<close> node is found, the text of its
  last \<open>p\<close> node is \<open>Audi\<close>, and the lookup yields absent.
\<close>

theorem extract_data_testid_value_single_p_counterexample:
  "find_tag (doc [make_block_one]) (\<lambda>n. is_tag ''div'' n \<and> has_testid ''make'' n)
     = Some make_block_one
   \<and> map get_text (find_all make_block_one (is_tag ''p'')) = [''Audi'']
   \<and> extract_data_testid_value (doc [make_block_one]) ''make'' = None"
  by (simp add: extract_data_testid_value_def find_tag_def find_all_def has_testid_def doc_def
      make_block_one_def is_tag_def attr_def)

section \<open>Properties of the listing record\<close>

lemma default_to_not_None: "default_to d v \<noteq> None"
  by (simp add: default_to_def split: option.splits)

lemma default_to_case: "default_to d v = Some (case v of None \<Rightarrow> d | Some x \<Rightarrow> x)"
  by (simp add: default_to_def split: option.splits)

text \<open>
  C3, as amended. Construction resolves each of the fourteen optional attributes: an
  absent string attribute becomes \<open>"unknown"\<close>, an absent engine_power becomes 0, an absent
  new_used becomes \<open>"used"\<close>, a supplied value is kept, so none of the fourteen is absent in
  a constructed record, and a record built with no optional attribute supplied carries the
  fourteen defaults. The attributes make, model, mileage_km, engine_capacity and fuel_type
  are not resolved: construction leaves them as they were passed.
\<close>

theorem post_init_defaults:
  "door_count (post_init c) = Some (case door_count c of None \<Rightarrow> ''unknown'' | Some v \<Rightarrow> v)
   \<and> vin (post_init c) = Some (case vin c of None \<Rightarrow> ''unknown'' | Some v \<Rightarrow> v)
   \<and> body_type (post_init c) = Some (case body_type c of None \<Rightarrow> ''unknown'' | Some v \<Rightarrow> v)
   \<and> color (post_init c) = Some (case color c of None \<Rightarrow> ''unknown'' | Some v \<Rightarrow> v)
   \<and> gearbox (post_init c) = Some (case gearbox c of None \<Rightarrow> ''unknown'' | Some v \<Rightarrow> v)
   \<and> engine_power (post_init c) = Some (case engine_power c of None \<Rightarrow> 0 | Some v \<Rightarrow> v)
   \<and> date_registration (post_init c)
       = Some (case date_registration c of None \<Rightarrow> ''unknown'' | Some v \<Rightarrow> v)
   \<and> transmission (post_init c)
       = Some (case transmission c of None \<Rightarrow> ''unknown'' | Some v \<Rightarrow> v)
   \<and> price_indicator (post_init c)
       = Some (case price_indicator c of None \<Rightarrow> ''unknown'' | Some v \<Rightarrow> v)
   \<and> price_range (post_init c)
       = Some (case price_range c of None \<Rightarrow> ''unknown'' | Some v \<Rightarrow> v)
   \<and> no_accident (post_init c)
       = Some (case no_accident c of None \<Rightarrow> ''unknown'' | Some v \<Rightarrow> v)
   \<and> country_origin (post_init c)
       = Some (case country_origin c of None \<Rightarrow> ''unknown'' | Some v \<Rightarrow> v)
   \<and> new_used (post_init c) = Some (case new_used c of None \<Rightarrow> ''used'' | Some v \<Rightarrow> v)
   \<and> registration_date_history (post_init c)
       = Some (case registration_date_history c of None \<Rightarrow> ''unknown'' | Some v \<Rightarrow> v)
   \<and> make' (post_init c) = make' c
   \<and> model (post_init c) = model c
   \<and> mileage_km (post_init c) = mileage_km c
   \<and> engine_capacity (post_init c) = engine_capacity c
   \<and> fuel_type (post_init c) = fuel_type c
   \<and> Car_required l fnm d y mi ec ft p mk mo =
       \<lparr> link = l, full_name = fnm, description = d, year = y, mileage_km = mi,
         engine_capacity = ec, fuel_type = ft, price_pln = p, make' = mk, model = mo,
         door_count = Some ''unknown'', vin = Some ''unknown'', body_type = Some ''unknown'',
         color = Some ''unknown'', gearbox = Some ''unknown'', engine_power = Some 0,
         date_registration = Some ''unknown'', transmission = Some ''unknown'',
         price_indicator = Some ''unknown'', price_range = Some ''unknown'',
         no_accident = Some ''unknown'', country_origin = Some ''unknown'',
         new_used = Some ''used'', registration_date_history = Some ''unknown'' \<rparr>"
  by (simp add: post_init_def Car_required_def default_to_case)

theorem post_init_defaults_witness:
  "vin (post_init car0) = Some ''WAUZZZ8K9KA000001''
   \<and> country_origin (post_init car0) = Some ''unknown''
   \<and> make' (post_init (car0\<lparr>make' := None\<rparr>)) = None"
  using post_init_defaults [of car0]
    post_init_defaults [of "car0\<lparr>make' := None\<rparr>"]
  by (simp add: car0_def)

section \<open>Properties of the price range estimate\<close>

text \<open>The products for a price of 100000, step by step.\<close>

lemma bitlen_100000: "bitlen 100000 = 17"
  by (simp add: bitlen.simps)

lemma to_double_100000: "to_double 100000 0 = Inr (100000, 0)"
  by (simp add: to_double_def bitlen_100000 round_shift_def)

lemma bitlen_0_85: "bitlen 765611936652984300000 = 70"
  by (simp add: bitlen.simps)

lemma round_shift_0_85: "round_shift 765611936652984300000 17 = 5841155522560000"
  by (simp add: round_shift_def Let_def)

lemma to_double_0_85: "to_double 765611936652984300000 (- 53) = Inr (5841155522560000, - 36)"
  by (simp add: to_double_def bitlen_0_85 round_shift_0_85)

lemma int_of_product_0_85: "int_of_product 100000 lit_0_85 = Inr 85000"
  by (simp add: int_of_product_def lit_0_85_def to_double_100000 to_double_0_85)

lemma bitlen_1_15: "bitlen 258956978573803500000 = 68"
  by (simp add: bitlen.simps)

lemma round_shift_1_15: "round_shift 258956978573803500000 15 = 7902739824639999"
  by (simp add: round_shift_def Let_def)

lemma to_double_1_15: "to_double 258956978573803500000 (- 51) = Inr (7902739824639999, - 36)"
  by (simp add: to_double_def bitlen_1_15 round_shift_1_15)

lemma int_of_product_1_15: "int_of_product 100000 lit_1_15 = Inr 114999"
  by (simp add: int_of_product_def lit_1_15_def to_double_100000 to_double_1_15)

lemma bitlen_0_9: "bitlen 810647932926689300000 = 70"
  by (simp add: bitlen.simps)

lemma round_shift_0_9: "round_shift 810647932926689300000 17 = 6184752906240000"
  by (simp add: round_shift_def Let_def)

lemma to_double_0_9: "to_double 810647932926689300000 (- 53) = Inr (6184752906240000, - 36)"
  by (simp add: to_double_def bitlen_0_9 round_shift_0_9)

lemma int_of_product_0_9: "int_of_product 100000 lit_0_9 = Inr 90000"
  by (simp add: int_of_product_def lit_0_9_def to_double_100000 to_double_0_9)

lemma bitlen_1_1: "bitlen 247697979505377300000 = 68"
  by (simp add: bitlen.simps)

lemma round_shift_1_1: "round_shift 247697979505377300000 15 = 7559142440960001"
  by (simp add: round_shift_def Let_def)

lemma to_double_1_1: "to_double 247697979505377300000 (- 51) = Inr (7559142440960001, - 36)"
  by (simp add: to_double_def bitlen_1_1 round_shift_1_1)

lemma int_of_product_1_1: "int_of_product 100000 lit_1_1 = Inr 110000"
  by (simp add: int_of_product_def lit_1_1_def to_double_100000 to_double_1_1)

lemma str_int_values:
  "str_int 100000 = ''100000''" "str_int 114999 = ''114999''" "str_int 85000 = ''85000''"
  "str_int 90000 = ''90000''" "str_int 110000 = ''110000''"
  by (simp_all add: str_int_def str_nat.simps)

lemma estimate_range_below_100000:
  "estimate_range ''BELOW'' 100000 = Inr (Some ''100000-114999 PLN'')"
  by (simp add: estimate_range_def int_of_product_1_15 str_int_values)

lemma estimate_range_above_100000:
  "estimate_range ''ABOVE'' 100000 = Inr (Some ''85000-100000 PLN'')"
  by (simp add: estimate_range_def int_of_product_0_85 str_int_values)

lemma estimate_range_in_100000:
  "estimate_range ''IN'' 100000 = Inr (Some ''90000-110000 PLN'')"
  by (simp add: estimate_range_def int_of_product_0_9 int_of_product_1_1 str_int_values)

text \<open>
  C8. For a price of 100000 the code gives 85000 to 100000 for ABOVE, 90000 to 110000 for
  IN and nothing for NONE, as the claim says. For BELOW it gives 100000 to 114999, where
  the claim says 100000 to 115000: the double nearest to 1.15 lies below 1.15, the product
  \<open>100000 * 1.15\<close> is rounded to a double below 115000, and \<open>int\<close> cuts it down to 114999.
\<close>

theorem estimate_range_at_100000:
  "estimate_range ''BELOW'' 100000 = Inr (Some ''100000-114999 PLN'')
   \<and> estimate_range ''ABOVE'' 100000 = Inr (Some ''85000-100000 PLN'')
   \<and> estimate_range ''IN'' 100000 = Inr (Some ''90000-110000 PLN'')
   \<and> estimate_range ''NONE'' 100000 = Inr None"
  by (simp add: estimate_range_below_100000 estimate_range_above_100000
      estimate_range_in_100000)
     (simp add: estimate_range_def)

section \<open>Properties of the detail record builder\<close>

lemma fetch_car_details_body_parsed:
  "parse w (fst (fetch_html (site w url) 2 1)) = Inr soup \<Longrightarrow>
   fetch_car_details_body w url =
     (case parse_price (offer_price_tag soup) of
        Inl err \<Rightarrow> Inl err
      | Inr price \<Rightarrow>
          (case page_price_indicator soup of
             Inl err \<Rightarrow> Inl err
           | Inr indicator_estimate \<Rightarrow>
               Inr (build_car url soup (legacy_details soup) price
                      (fst (extract_vin_with_playwright (sessions w url)))
                      indicator_estimate)))"
  by (simp add: fetch_car_details_body_def Let_def split: sum.splits)

lemma fetch_car_details_Some:
  "fetch_car_details w url = Some c \<longleftrightarrow> fetch_car_details_body w url = Inr c"
  by (simp add: fetch_car_details_def split: sum.splits)

lemma fetch_car_details_None:
  "fetch_car_details w url = None \<longleftrightarrow> (\<exists>err. fetch_car_details_body w url = Inl err)"
  by (simp add: fetch_car_details_def split: sum.splits)

lemma fetch_car_details_parsed:
  assumes "parse w (fst (fetch_html (site w url) 2 1)) = Inr soup"
    and "fetch_car_details w url = Some c"
  shows "\<exists>price indicator_estimate.
           parse_price (offer_price_tag soup) = Inr price
           \<and> page_price_indicator soup = Inr indicator_estimate
           \<and> c = build_car url soup (legacy_details soup) price
                   (fst (extract_vin_with_playwright (sessions w url))) indicator_estimate"
  using assms
  by (auto simp: fetch_car_details_Some fetch_car_details_body_parsed split: sum.splits)

lemma build_car_fields:
  "link (build_car url soup details price interactive ie) = url"
  "year (build_car url soup details price interactive ie) = page_year soup details"
  "price_pln (build_car url soup details price interactive ie) = price"
  "engine_power (build_car url soup details price interactive ie) =
     default_to 0 (page_engine_power soup details)"
  "vin (build_car url soup details price interactive ie) =
     default_to ''unknown'' (resolve_vin interactive soup details)"
  "mileage_km (build_car url soup details price interactive ie) =
     or_none (fst (snd (detail_labels soup)))"
  "engine_capacity (build_car url soup details price interactive ie) =
     or_none (snd (snd (detail_labels soup)))"
  "make' (build_car url soup details price interactive ie) =
     extract_data_testid_value soup ''make''"
  by (simp_all add: build_car_def post_init_def split: prod.splits)

lemma resolve_vin_first_success:
  "resolve_vin interactive soup details =
     (case first_success [interactive, static_vin soup,
             extract_data_testid_value soup ''vin'', details ''vin''] of
        None \<Rightarrow> extract_data_testid_value soup ''vin''
      | Some v \<Rightarrow> Some v)"
proof (cases "truthy interactive")
  case True
  then show ?thesis
    by (cases interactive) (simp_all add: resolve_vin_def)
next
  case False
  note none1 = this
  show ?thesis
  proof (cases "static_vin soup")
    case None
    with none1 show ?thesis
      by (cases "extract_data_testid_value soup ''vin''"; cases "details ''vin''")
         (auto simp: resolve_vin_def Let_def)
  next
    case (Some t)
    with none1 show ?thesis
      by (cases "extract_data_testid_value soup ''vin''"; cases "details ''vin''")
         (auto simp: resolve_vin_def Let_def)
  qed
qed

section \<open>The builder on the example pages\<close>

lemma fetch_html_ok_site: "fst (fetch_html (ok_site url) 2 1) = url"
  by (simp add: fetch_html_def ok_site_def upt_rec)

lemma extract_vin_no_vin: "fst (extract_vin_with_playwright (\<lambda>n. no_vin)) = None"
  by (simp add: extract_vin_with_playwright_def max_retries_def upt_rec attempt_session_def
      session_body_def no_vin_def visible_vin_def and_then_def await_def dismiss_consent_def
      button_path_def close_and_return_def)

lemma extract_vin_visible_vin:
  "fst (extract_vin_with_playwright (\<lambda>n. visible_vin)) = Some ''WAUZZZ8K9KA000001''"
  by (simp add: extract_vin_with_playwright_def max_retries_def upt_rec attempt_session_def
      session_body_def visible_vin_def and_then_def await_def dismiss_consent_def
      visible_path_def strip_content_def strip_def is_space_def)

lemma parse_world0:
  "parse world0 (fst (fetch_html (site world0 url) 2 1)) = pages url"
  "parse world1 (fst (fetch_html (site world1 url) 2 1)) = pages url"
  by (simp_all add: world0_def world1_def fetch_html_ok_site)

lemma sessions_world0:
  "fst (extract_vin_with_playwright (sessions world0 url)) = None"
  "fst (extract_vin_with_playwright (sessions world1 url)) = Some ''WAUZZZ8K9KA000001''"
  by (simp_all add: world0_def world1_def extract_vin_no_vin extract_vin_visible_vin)

lemma pages_values:
  "pages ''none'' = Inr empty_page" "pages ''audi'' = Inr audi_page"
  "pages ''ask'' = Inr ask_price_page" "pages ''broken'' = Inl LibraryError"
  by (simp_all add: pages_def)

lemma empty_page_price: "parse_price (offer_price_tag empty_page) = Inr 0"
  by code_simp

lemma empty_page_indicator: "page_price_indicator empty_page = Inr (None, None)"
  by code_simp


lemma empty_page_make: "extract_data_testid_value empty_page ''make'' = None"
  by code_simp

lemma empty_page_car:
  "fetch_car_details world0 ''none'' =
     Some (build_car ''none'' empty_page (legacy_details empty_page) 0 None (None, None))"
  by (simp add: fetch_car_details_def fetch_car_details_body_parsed parse_world0 pages_values
      empty_page_price empty_page_indicator sessions_world0)

lemma ask_price_page_price: "parse_price (offer_price_tag ask_price_page) = Inl ValueError"
  by code_simp

lemma ask_price_page_body: "fetch_car_details_body world0 ''ask'' = Inl ValueError"
  by (simp add: fetch_car_details_body_parsed parse_world0 pages_values ask_price_page_price)

lemma broken_page_body: "fetch_car_details_body world0 ''broken'' = Inl LibraryError"
  using parse_world0 (1) [of "''broken''"]
  by (simp add: fetch_car_details_body_def pages_values)

lemma audi_page_price: "parse_price (offer_price_tag audi_page) = Inr 100000"
  by code_simp

lemma audi_page_price_tag: "offer_price_tag audi_page = Some (price_span ''100 000'')"
  by code_simp

lemma audi_page_price_digits:
  "py_int (strip_non_digits (get_text (price_span ''100 000''))) = Inr 100000"
  by code_simp

lemma audi_page_indicator_tag:
  "find_tag audi_page (\<lambda>n. is_tag ''p'' n \<and>
       (case attr n ''data-testid'' of None \<Rightarrow> False | Some v \<Rightarrow> contains indicator_prefix v))
     = Some (Tag ''p'' [(''data-testid'', ''price-indicator-label-BELOW'')]
               [Text ''Ponizej sredniej''])"
  by code_simp

lemma audi_page_indicator_parts:
  "strip (get_text (Tag ''p'' [(''data-testid'', ''price-indicator-label-BELOW'')]
       [Text ''Ponizej sredniej''])) = ''Ponizej sredniej''"
  "attr (Tag ''p'' [(''data-testid'', ''price-indicator-label-BELOW'')]
       [Text ''Ponizej sredniej'']) ''data-testid'' = Some ''price-indicator-label-BELOW''"
  "search_indicator ''price-indicator-label-BELOW'' = Some ''BELOW''"
  by code_simp+

lemma audi_page_indicator:
  "page_price_indicator audi_page =
     Inr (Some ''Ponizej sredniej'', Some ''100000-114999 PLN'')"
  by (simp add: page_price_indicator_def audi_page_indicator_tag audi_page_indicator_parts
      audi_page_price_tag audi_page_price_digits estimate_range_below_100000
      except_value_attribute_def del: get_text.simps search_indicator.simps)

lemma audi_page_vins:
  "static_vin audi_page = Some ''STATIC00000ADVERT''"
  "extract_data_testid_value audi_page ''vin'' = Some ''STATIC0000000KEYED''"
  by code_simp+

lemma audi_page_car_interactive:
  "fetch_car_details world1 ''audi'' =
     Some (build_car ''audi'' audi_page (legacy_details audi_page) 100000
             (Some ''WAUZZZ8K9KA000001'')
             (Some ''Ponizej sredniej'', Some ''100000-114999 PLN''))"
  by (simp add: fetch_car_details_def fetch_car_details_body_parsed parse_world0 pages_values
      audi_page_price audi_page_indicator sessions_world0)

lemma audi_page_car_static:
  "fetch_car_details world0 ''audi'' =
     Some (build_car ''audi'' audi_page (legacy_details audi_page) 100000 None
             (Some ''Ponizej sredniej'', Some ''100000-114999 PLN''))"
  by (simp add: fetch_car_details_def fetch_car_details_body_parsed parse_world0 pages_values
      audi_page_price audi_page_indicator sessions_world0)

section \<open>The VIN of a built record\<close>

text \<open>
  C6. A source succeeds when it gives a value that is not empty. The VIN of a built record
  is the first success among the interactive extractor, the static \<open>advert-vin\<close> block,
  the keyed lookup under \<open>vin\<close> and the legacy table, in this order; when none succeeds it
  is the result of the keyed lookup, with \<open>"unknown"\<close> for an absent one. In particular a
  value of the interactive extractor is used whatever the static sources hold.
\<close>

theorem vin_resolution_precedence:
  assumes "parse w (fst (fetch_html (site w url) 2 1)) = Inr soup"
    and "fetch_car_details w url = Some c"
  shows "vin c =
           (case first_success
                   [fst (extract_vin_with_playwright (sessions w url)), static_vin soup,
                    extract_data_testid_value soup ''vin'', legacy_details soup ''vin''] of
              None \<Rightarrow> Some (case extract_data_testid_value soup ''vin'' of
                               None \<Rightarrow> ''unknown'' | Some v \<Rightarrow> v)
            | Some v \<Rightarrow> Some v)
         \<and> (truthy (fst (extract_vin_with_playwright (sessions w url))) \<longrightarrow>
              vin c = fst (extract_vin_with_playwright (sessions w url)))"
proof -
  from fetch_car_details_parsed [OF assms] obtain price ie where
    c: "c = build_car url soup (legacy_details soup) price
              (fst (extract_vin_with_playwright (sessions w url))) ie"
    by blast
  show ?thesis
    unfolding c build_car_fields resolve_vin_first_success
    by (cases "fst (extract_vin_with_playwright (sessions w url))")
       (auto simp: default_to_def split: option.splits)
qed

theorem vin_resolution_precedence_witness:
  "map_option vin (fetch_car_details world1 ''audi'') = Some (Some ''WAUZZZ8K9KA000001'')
   \<and> static_vin audi_page = Some ''STATIC00000ADVERT''
   \<and> map_option vin (fetch_car_details world0 ''audi'') = Some (Some ''STATIC00000ADVERT'')"
proof -
  have p1: "parse world1 (fst (fetch_html (site world1 ''audi'') 2 1)) = Inr audi_page"
    by (simp add: parse_world0 pages_values)
  have p0: "parse world0 (fst (fetch_html (site world0 ''audi'') 2 1)) = Inr audi_page"
    by (simp add: parse_world0 pages_values)
  show ?thesis
    using vin_resolution_precedence [OF p1 audi_page_car_interactive]
      vin_resolution_precedence [OF p0 audi_page_car_static]
    by (simp add: audi_page_car_interactive audi_page_car_static sessions_world0
        audi_page_vins)
qed

section \<open>Absent attributes of a built record\<close>

lemma empty_page_transformed_make:
  "map_option (\<lambda>c. param (transform_car_to_schema c) ''make'')
     (fetch_car_details world0 ''none'') = Some (Some (JStr []))"
  by (simp add: empty_page_car param_make build_car_fields empty_page_make if_truthy_def)

text \<open>
  C3 as stated fails: the record that the builder constructs from a page without a
  \<open>make\<close> block has an absent make, and the transformer, which tests for it, emits the
  empty string.
\<close>

theorem built_record_absent_make_counterexample:
  "map_option make' (fetch_car_details world0 ''none'') = Some None
   \<and> map_option (\<lambda>c. param (transform_car_to_schema c) ''make'')
        (fetch_car_details world0 ''none'') = Some (Some (JStr []))"
  by (simp add: empty_page_transformed_make)
     (simp add: empty_page_car build_car_fields empty_page_make)

section \<open>The numeric fields of a built record\<close>














section \<open>Properties of the batch scheduler\<close>

lemma chunked_Nil: "chunked n [] = []"
  by (simp add: chunked.simps)

lemma chunked_step:
  "0 < n \<Longrightarrow> xs \<noteq> [] \<Longrightarrow> chunked n xs = take n xs # chunked n (drop n xs)"
  by (subst chunked.simps) simp

lemma chunked_eq_Nil: "0 < n \<Longrightarrow> chunked n xs = [] \<longleftrightarrow> xs = []"
  by (subst chunked.simps) simp

lemma concat_chunked: "0 < n \<Longrightarrow> concat (chunked n xs) = xs"
proof (induction n xs rule: chunked.induct)
  case (1 n xs)
  show ?case
  proof (cases "xs = []")
    case True
    then show ?thesis by (simp add: chunked_Nil)
  next
    case False
    with 1 show ?thesis by (simp add: chunked_step)
  qed
qed

lemma chunked_lengths:
  "0 < n \<Longrightarrow> c \<in> set (chunked n xs) \<Longrightarrow> 1 \<le> length c \<and> length c \<le> n"
proof (induction n xs rule: chunked.induct)
  case (1 n xs)
  show ?case
  proof (cases "xs = []")
    case True
    with "1.prems" show ?thesis by (simp add: chunked_Nil)
  next
    case False
    with "1.prems" have "c = take n xs \<or> c \<in> set (chunked n (drop n xs))"
      by (simp add: chunked_step)
    then show ?thesis
    proof
      assume "c = take n xs"
      with False "1.prems" show ?thesis
        by (cases xs) (simp_all add: Suc_le_eq)
    next
      assume "c \<in> set (chunked n (drop n xs))"
      with 1 False show ?thesis by simp
    qed
  qed
qed

lemma chunked_butlast_full:
  "0 < n \<Longrightarrow> c \<in> set (butlast (chunked n xs)) \<Longrightarrow> length c = n"
proof (induction n xs rule: chunked.induct)
  case (1 n xs)
  show ?case
  proof (cases "xs = []")
    case True
    with "1.prems" show ?thesis by (simp add: chunked_Nil)
  next
    case False
    show ?thesis
    proof (cases "drop n xs = []")
      case True
      with False "1.prems" show ?thesis
        by (simp add: chunked_step chunked_Nil)
    next
      case rest: False
      then have long: "n < length xs" by simp
      from rest "1.prems" have "chunked n (drop n xs) \<noteq> []"
        by (simp add: chunked_eq_Nil)
      with False "1.prems" have "c = take n xs \<or> c \<in> set (butlast (chunked n (drop n xs)))"
        by (simp add: chunked_step)
      then show ?thesis
      proof
        assume "c = take n xs"
        with long show ?thesis by simp
      next
        assume "c \<in> set (butlast (chunked n (drop n xs)))"
        with 1 False show ?thesis by simp
      qed
    qed
  qed
qed

lemma chunked_17:
  assumes "length xs = 17"
  shows "map length (chunked 8 xs) = [8, 8, 1]"
proof -
  have c3: "chunked 8 (drop 16 xs) = [drop 16 xs]"
    using assms chunked_step [of 8 "drop 16 xs"] by (simp add: chunked_Nil)
  have c2: "chunked 8 (drop 8 xs) = take 8 (drop 8 xs) # chunked 8 (drop 16 xs)"
    using assms chunked_step [of 8 "drop 8 xs"] by simp
  from assms have "xs \<noteq> []" by auto
  then have c1: "chunked 8 xs = take 8 xs # chunked 8 (drop 8 xs)"
    using chunked_step [of 8 xs] by simp
  show ?thesis
    using assms by (simp add: c1 c2 c3)
qed

lemma paced_Cons: "paced (e # es) = e # (if es = [] then [] else Pause (1 / 2) # paced es)"
  by (cases es) simp_all

lemma pauses_paced:
  "\<forall>e \<in> set es. \<not> is_pause e \<Longrightarrow> length (filter is_pause (paced es)) = length es - 1"
  by (induction es rule: paced.induct) (simp_all add: is_pause_def)

lemma built_append: "built build (xs @ ys) = built build xs @ built build ys"
  by (simp add: built_def)

lemma batch_loop_shape:
  "batch_loop build all_links i acc =
     (fst acc @ built build (drop i all_links),
      snd acc @ paced (map Gather (chunked chunk_size (drop i all_links))))"
proof (induction build all_links i acc rule: batch_loop.induct)
  case (1 build all_links i acc)
  show ?case
  proof (cases "i < length all_links")
    case False
    then show ?thesis
      by (subst batch_loop.simps) (simp add: built_def chunked_Nil)
  next
    case True
    let ?rest = "drop i all_links"
    let ?acc = "(fst acc @ built build (take chunk_size ?rest),
                 snd acc @ [Gather (take chunk_size ?rest)] @
                   (if i + chunk_size < length all_links then [Pause (1 / 2)] else []))"
    from True have ne: "?rest \<noteq> []" by simp
    have step: "batch_loop build all_links i acc =
                  batch_loop build all_links (i + chunk_size) ?acc"
      using True by (subst batch_loop.simps) (simp add: Let_def built_def)
    have IH: "batch_loop build all_links (i + chunk_size) ?acc =
                (fst ?acc @ built build (drop (i + chunk_size) all_links),
                 snd ?acc @ paced (map Gather
                   (chunked chunk_size (drop (i + chunk_size) all_links))))"
      using "1.IH" [OF True refl refl refl refl] by (simp add: built_def)
    have d: "drop (i + chunk_size) all_links = drop chunk_size ?rest"
      by (simp add: add.commute)
    have "built build ?rest = built build (take chunk_size ?rest @ drop chunk_size ?rest)"
      by (simp only: append_take_drop_id)
    then have b: "built build ?rest =
               built build (take chunk_size ?rest) @ built build (drop chunk_size ?rest)"
      by (simp only: built_append)
    have more: "i + chunk_size < length all_links \<longleftrightarrow>
                  chunked chunk_size (drop chunk_size ?rest) \<noteq> []"
      by (auto simp: chunked_eq_Nil chunk_size_def)
    have c: "chunked chunk_size ?rest =
               take chunk_size ?rest # chunked chunk_size (drop chunk_size ?rest)"
      using ne by (simp add: chunked_step chunk_size_def)
    show ?thesis
      unfolding step IH d
      by (simp add: b c paced_Cons more)
  qed
qed

lemma process_links_shape:
  "process_links build all_links =
     (built build all_links, paced (map Gather (chunked chunk_size all_links)))"
  by (simp add: process_links_def batch_loop_shape)

lemma built_member:
  "l \<in> set ls \<Longrightarrow> build l = Some c \<Longrightarrow> c \<in> set (built build ls)"
  by (force simp: built_def image_iff)

text \<open>
  C7. The scheduler handles the links in consecutive chunks of 8, the last one possibly
  smaller: the chunks put together are the links, every chunk but the last has 8 links,
  no chunk is empty or longer than 8, and 17 links give chunks of 8, 8 and 1. Each chunk is
  gathered as a whole before the next one is started, with a pause of half a second after
  every chunk but the last. The records returned are those of the links whose builder
  invocation gave one, in the order of the links: an absent result is dropped, no link is
  tried again, and a link that fails takes no other record away.
\<close>

theorem batch_scheduling_shape:
  "process_links build all_links =
     (built build all_links, paced (map Gather (chunked chunk_size all_links)))
   \<and> concat (chunked chunk_size all_links) = all_links
   \<and> (\<forall>c \<in> set (butlast (chunked chunk_size all_links)). length c = 8)
   \<and> (\<forall>c \<in> set (chunked chunk_size all_links). 1 \<le> length c \<and> length c \<le> 8)
   \<and> (length all_links = 17 \<longrightarrow> map length (chunked chunk_size all_links) = [8, 8, 1])
   \<and> length (filter is_pause (snd (process_links build all_links))) =
       length (chunked chunk_size all_links) - 1
   \<and> (\<forall>l \<in> set all_links. \<forall>c. build l = Some c \<longrightarrow>
         c \<in> set (fst (process_links build all_links)))"
proof (intro conjI ballI impI allI)
  show "process_links build all_links =
          (built build all_links, paced (map Gather (chunked chunk_size all_links)))"
    by (rule process_links_shape)
  show "concat (chunked chunk_size all_links) = all_links"
    by (simp add: concat_chunked chunk_size_def)
  show "length c = 8" if "c \<in> set (butlast (chunked chunk_size all_links))" for c
    using chunked_butlast_full [of chunk_size c all_links] that by (simp add: chunk_size_def)
  show "1 \<le> length c" and "length c \<le> 8" if "c \<in> set (chunked chunk_size all_links)" for c
    using chunked_lengths [of chunk_size c all_links] that by (simp_all add: chunk_size_def)
  show "map length (chunked chunk_size all_links) = [8, 8, 1]" if "length all_links = 17"
    using chunked_17 [OF that] by (simp add: chunk_size_def)
  show "length (filter is_pause (snd (process_links build all_links))) =
          length (chunked chunk_size all_links) - 1"
    using pauses_paced [of "map Gather (chunked chunk_size all_links)"]
    by (simp add: process_links_shape is_pause_def)
  show "c \<in> set (fst (process_links build all_links))"
    if "l \<in> set all_links" and "build l = Some c" for l c
    using built_member [of l all_links build c] that by (simp add: process_links_shape)
qed

lemma chunked_links17:
  "chunked chunk_size links17 =
     [[''audi'', ''audi'', ''none'', ''ask'', ''audi'', ''audi'', ''audi'', ''audi''],
      [''audi'', ''audi'', ''audi'', ''audi'', ''audi'', ''audi'', ''audi'', ''audi''],
      [''none'']]"
  by (simp add: chunk_size_def links17_def chunked.simps)

lemma ask_price_page_None: "fetch_car_details world0 ''ask'' = None"
  by (simp add: fetch_car_details_def ask_price_page_body)

theorem batch_scheduling_shape_witness:
  "snd (process_links (fetch_car_details world0) links17) =
     [Gather [''audi'', ''audi'', ''none'', ''ask'', ''audi'', ''audi'', ''audi'', ''audi''],
      Pause (1 / 2),
      Gather [''audi'', ''audi'', ''audi'', ''audi'', ''audi'', ''audi'', ''audi'', ''audi''],
      Pause (1 / 2),
      Gather [''none'']]
   \<and> length (fst (process_links (fetch_car_details world0) links17)) = 16
   \<and> map length (chunked chunk_size links17) = [8, 8, 1]
   \<and> fetch_car_details world0 ''ask'' = None"
  using batch_scheduling_shape [of "fetch_car_details world0" links17]
  by (simp add: chunked_links17 ask_price_page_None)
     (simp add: built_def links17_def ask_price_page_None audi_page_car_static empty_page_car)

section \<open>Failure isolation\<close>

lemma fetch_html_all_failed:
  assumes "\<forall>a < nat retries. \<not> is_ok (server a)"
  shows "fst (fetch_html server retries delay) = []"
proof -
  from assms have none: "dropWhile (\<lambda>a. \<not> is_ok (server a)) [0..<nat retries] = []"
    by simp
  show ?thesis
    unfolding fetch_html_def fetch_attempts_first_ok [of server retries delay] none
    by simp
qed

text \<open>
  C1. Whatever exception leaves the \<open>try\<close> block of the builder, a parser exception or the
  \<open>ValueError\<close> of an unreadable price among them, the builder returns the absent result;
  the batch that called it keeps the record of every other link. The fetch client returns
  the empty text when none of its attempts succeeds.
\<close>

theorem failure_isolation:
  "(fetch_car_details_body w url = Inl err \<longrightarrow> fetch_car_details w url = None)
   \<and> (parse w (fst (fetch_html (site w url) 2 1)) = Inl err \<longrightarrow>
        fetch_car_details w url = None)
   \<and> ((\<forall>a < nat retries. \<not> is_ok (server a)) \<longrightarrow>
        fst (fetch_html server retries delay) = [])
   \<and> (fetch_car_details w url = None \<longrightarrow> l \<in> set all_links \<longrightarrow>
        fetch_car_details w l = Some c \<longrightarrow>
        c \<in> set (fst (process_links (fetch_car_details w) all_links)))"
proof (intro conjI impI)
  show "fetch_car_details w url = None" if "fetch_car_details_body w url = Inl err"
    using that by (simp add: fetch_car_details_def)
  show "fetch_car_details w url = None"
    if "parse w (fst (fetch_html (site w url) 2 1)) = Inl err"
    using that by (simp add: fetch_car_details_def fetch_car_details_body_def)
  show "fst (fetch_html server retries delay) = []"
    if "\<forall>a < nat retries. \<not> is_ok (server a)"
    using that by (rule fetch_html_all_failed)
  show "c \<in> set (fst (process_links (fetch_car_details w) all_links))"
    if "l \<in> set all_links" and "fetch_car_details w l = Some c"
    using built_member [of l all_links "fetch_car_details w" c] that
    by (simp add: process_links_shape)
qed

theorem failure_isolation_witness:
  "fetch_car_details_body world0 ''ask'' = Inl ValueError
   \<and> fetch_car_details world0 ''ask'' = None
   \<and> parse world0 (fst (fetch_html (site world0 ''broken'') 2 1)) = Inl LibraryError
   \<and> fetch_car_details world0 ''broken'' = None
   \<and> fst (fetch_html always_forbidden 2 1) = []
   \<and> build_car ''none'' empty_page (legacy_details empty_page) 0 None (None, None)
       \<in> set (fst (process_links (fetch_car_details world0) [''audi'', ''ask'', ''none'']))"
  using failure_isolation [of world0 "''ask''" ValueError 2 always_forbidden 1 "''none''"
      "[''audi'', ''ask'', ''none'']"
      "build_car ''none'' empty_page (legacy_details empty_page) 0 None (None, None)"]
    failure_isolation [of world0 "''broken''" LibraryError 2 always_forbidden 1 "''none''"
      "[''audi'', ''ask'', ''none'']"
      "build_car ''none'' empty_page (legacy_details empty_page) 0 None (None, None)"]
  by (simp add: ask_price_page_body parse_world0 pages_values always_forbidden_def is_ok_def
      empty_page_car)

section \<open>Properties of the interactive extractor\<close>

lemma and_then_events:
  assumes "set (snd m) \<subseteq> A" and "\<And>v. set (snd (f v)) \<subseteq> A"
  shows "set (snd (and_then m f)) \<subseteq> A"
proof (cases m)
  case (Pair r evs)
  show ?thesis
  proof (cases r)
    case (Inl err)
    with Pair assms(1) show ?thesis by (simp add: and_then_def)
  next
    case (Inr v)
    with Pair assms(1) assms(2) [of v] show ?thesis
      by (cases "f v") (auto simp: and_then_def)
  qed
qed

lemma if_events:
  "set (snd a) \<subseteq> A \<Longrightarrow> set (snd b) \<subseteq> A \<Longrightarrow> set (snd (if c then a else b)) \<subseteq> A"
  by simp

lemma no_events: "set (snd (r, [] :: pw_event list)) \<subseteq> A"
  by simp

lemma is_start_simps:
  "is_start Driver_started" "\<not> is_start Driver_stopped" "\<not> is_start Browser_launched"
  "\<not> is_start Browser_closed" "\<not> is_start (Retry_sleep d)"
  by (simp_all add: is_start_def)

lemma await_events: "set evs \<subseteq> A \<Longrightarrow> set (snd (await oc evs)) \<subseteq> A"
  by (cases oc) (simp_all add: await_def)

lemma strip_content_events: "set (snd (strip_content v)) \<subseteq> A"
  by (cases v) (simp_all add: strip_content_def)

lemma dismiss_consent_events: "snd (dismiss_consent s) = []"
  by (auto simp: dismiss_consent_def and_then_def await_def
      split: outcome.splits prod.splits sum.splits)

lemma reveal_block_events: "set (snd (reveal_block s)) \<subseteq> {Browser_launched, Browser_closed}"
proof -
  let ?A = "{Browser_launched, Browser_closed}"
  let ?m = "and_then (await (wait_for_selector s) []) (\<lambda>_.
              and_then (await (revealed_count s) []) (\<lambda>n.
                if n > 0 then
                  and_then (await (revealed_text s) []) (\<lambda>vin.
                  and_then (await (close_348 s) [Browser_closed]) (\<lambda>_.
                  and_then (strip_content vin) (\<lambda>v. (Inr (Some v), []))))
                else (Inr None, [])))"
  have "set (snd ?m) \<subseteq> ?A"
    by (intro and_then_events await_events strip_content_events if_events no_events) simp_all
  then show ?thesis
    by (cases ?m) (auto simp: reveal_block_def split: sum.splits)
qed

lemma visible_path_events: "set (snd (visible_path s)) \<subseteq> {Browser_launched, Browser_closed}"
  unfolding visible_path_def
  by (intro and_then_events await_events strip_content_events) simp_all

lemma button_path_events: "set (snd (button_path s)) \<subseteq> {Browser_launched, Browser_closed}"
proof -
  have r: "set (snd (case reveal_block s of (r, evs) \<Rightarrow> (Inr r :: exn + string option option, evs)))
             \<subseteq> {Browser_launched, Browser_closed}"
    using reveal_block_events [of s] by (cases "reveal_block s") simp
  show ?thesis
    unfolding button_path_def
    by (intro and_then_events await_events if_events no_events r) simp_all
qed

lemma close_and_return_events:
  "set (snd (close_and_return s)) \<subseteq> {Browser_launched, Browser_closed}"
  unfolding close_and_return_def
  by (intro and_then_events await_events no_events) simp_all

lemma after_button_events:
  "set (snd (case returned of Some v \<Rightarrow> (Inr v, []) | None \<Rightarrow> close_and_return s))
     \<subseteq> {Browser_launched, Browser_closed}"
  using close_and_return_events [of s] by (cases returned) simp_all

lemma session_body_events: "set (snd (session_body s)) \<subseteq> {Browser_launched, Browser_closed}"
proof -
  have consent: "set (snd (dismiss_consent s)) \<subseteq> {Browser_launched, Browser_closed}"
    by (simp add: dismiss_consent_events)
  show ?thesis
    unfolding session_body_def
    by (intro and_then_events await_events if_events consent visible_path_events
          button_path_events after_button_events) simp_all
qed

lemma bracketed_body:
  "set es \<subseteq> {Browser_launched, Browser_closed} \<Longrightarrow>
   bracketed True (es @ rest) = bracketed True rest"
  by (induction es) auto

lemma after_events_body:
  "foldl after_event r (es @ [Driver_stopped]) = released"
  by (simp add: released_def)

lemma attempt_session_shape:
  "snd (attempt_session s) = [] \<and> (\<exists>err. fst (attempt_session s) = Inl err)
   \<or> (\<exists>body. snd (attempt_session s) = Driver_started # body @ [Driver_stopped]
         \<and> set body \<subseteq> {Browser_launched, Browser_closed})"
proof (cases "start_playwright s")
  case Raises
  then show ?thesis
    by (simp add: attempt_session_def and_then_def await_def)
next
  case (Returns u)
  then have "snd (attempt_session s) = Driver_started # snd (session_body s) @ [Driver_stopped]"
    by (cases "session_body s") (simp add: attempt_session_def and_then_def await_def)
  with session_body_events [of s] show ?thesis by blast
qed

lemma attempt_session_bracketed:
  "bracketed False (snd (attempt_session s) @ rest) = bracketed False rest"
  using attempt_session_shape [of s] by (auto simp: bracketed_body)

lemma attempt_session_released:
  "foldl after_event released (snd (attempt_session s) @ rest) = foldl after_event released rest"
  using attempt_session_shape [of s]
  by (auto simp: released_def)

lemma attempt_session_starts:
  "length (filter is_start (snd (attempt_session s))) \<le> 1"
proof -
  have "filter is_start body = []" if "set body \<subseteq> {Browser_launched, Browser_closed}" for body
    using that by (induction body) (auto simp: is_start_simps)
  with attempt_session_shape [of s] show ?thesis
    by (auto simp: is_start_simps)
qed

lemma vin_attempts_events:
  "snd (vin_attempts scripts (a # as)) =
     snd (attempt_session (scripts a)) \<or>
   snd (vin_attempts scripts (a # as)) =
     snd (attempt_session (scripts a)) @ Retry_sleep 5 # snd (vin_attempts scripts as)"
  by (cases "attempt_session (scripts a)"; cases "fst (attempt_session (scripts a))";
      cases "vin_attempts scripts as") auto

lemma vin_attempts_bracketed: "bracketed False (snd (vin_attempts scripts as))"
proof (induction as)
  case Nil
  show ?case by simp
next
  case (Cons a as)
  from vin_attempts_events [of scripts a as] show ?case
  proof
    assume eq: "snd (vin_attempts scripts (a # as)) = snd (attempt_session (scripts a))"
    show ?thesis
      unfolding eq using attempt_session_bracketed [of "scripts a" "[]"] by simp
  next
    assume eq: "snd (vin_attempts scripts (a # as)) =
              snd (attempt_session (scripts a)) @ Retry_sleep 5 # snd (vin_attempts scripts as)"
    show ?thesis
      unfolding eq attempt_session_bracketed using Cons.IH by simp
  qed
qed

lemma vin_attempts_released:
  "foldl after_event released (snd (vin_attempts scripts as)) = released"
proof (induction as)
  case Nil
  show ?case by simp
next
  case (Cons a as)
  from vin_attempts_events [of scripts a as] show ?case
  proof
    assume eq: "snd (vin_attempts scripts (a # as)) = snd (attempt_session (scripts a))"
    show ?thesis
      unfolding eq using attempt_session_released [of "scripts a" "[]"] by simp
  next
    assume eq: "snd (vin_attempts scripts (a # as)) =
              snd (attempt_session (scripts a)) @ Retry_sleep 5 # snd (vin_attempts scripts as)"
    show ?thesis
      unfolding eq attempt_session_released using Cons.IH by simp
  qed
qed

lemma vin_attempts_starts:
  "length (filter is_start (snd (vin_attempts scripts as))) \<le> length as"
proof (induction as)
  case Nil
  show ?case by simp
next
  case (Cons a as)
  from vin_attempts_events [of scripts a as] show ?case
  proof
    assume eq: "snd (vin_attempts scripts (a # as)) = snd (attempt_session (scripts a))"
    show ?thesis
      unfolding eq using attempt_session_starts [of "scripts a"] by simp
  next
    assume eq: "snd (vin_attempts scripts (a # as)) =
              snd (attempt_session (scripts a)) @ Retry_sleep 5 # snd (vin_attempts scripts as)"
    show ?thesis
      unfolding eq using Cons.IH attempt_session_starts [of "scripts a"]
      by (simp add: is_start_simps)
  qed
qed

lemma timeout_twice_run:
  "extract_vin_with_playwright timeout_twice =
     (Some ''WAUZZZ8K9KA000001'',
      [Driver_started, Browser_launched, Driver_stopped, Retry_sleep 5,
       Driver_started, Browser_launched, Driver_stopped, Retry_sleep 5,
       Driver_started, Browser_launched, Browser_closed, Driver_stopped])"
  by (simp add: extract_vin_with_playwright_def max_retries_def upt_rec attempt_session_def
      session_body_def timeout_twice_def goto_timeout_def visible_vin_def and_then_def
      await_def dismiss_consent_def visible_path_def strip_content_def strip_def is_space_def)

text \<open>
  C10. Whatever the calls of an attempt return or raise, the events of
  \<open>extract_vin_with_playwright\<close> are bracketed: every attempt that starts the driver leaves
  the \<open>async with\<close> block, by a return or by an exception, before the function sleeps,
  starts the next attempt or returns, and the browser is launched and closed only inside
  the block. Leaving the block stops the driver and with it the browser, so no session
  resource is held when the function returns. On the paths that return a value or absent
  the browser has been closed by \<open>browser.close()\<close> before; on the exception paths the stop of
  the driver is what releases it. The function makes at most three attempts.
\<close>

theorem session_release:
  "bracketed False (snd (extract_vin_with_playwright scripts))
   \<and> after_events (snd (extract_vin_with_playwright scripts)) = released
   \<and> length (filter is_start (snd (extract_vin_with_playwright scripts))) \<le> 3"
  using vin_attempts_bracketed [of scripts "[0..<max_retries + 1]"]
    vin_attempts_released [of scripts "[0..<max_retries + 1]"]
    vin_attempts_starts [of scripts "[0..<max_retries + 1]"]
  by (simp add: extract_vin_with_playwright_def after_events_def max_retries_def)

theorem session_release_witness:
  "snd (extract_vin_with_playwright timeout_twice) =
     [Driver_started, Browser_launched, Driver_stopped, Retry_sleep 5,
      Driver_started, Browser_launched, Driver_stopped, Retry_sleep 5,
      Driver_started, Browser_launched, Browser_closed, Driver_stopped]
   \<and> bracketed False (snd (extract_vin_with_playwright timeout_twice))
   \<and> after_events (snd (extract_vin_with_playwright timeout_twice)) = released"
  using session_release [of timeout_twice]
  by (simp add: timeout_twice_run)

text \<open>
  A page that cannot be fetched raises nothing in the builder: \<open>fetch_html\<close> returns the
  empty text, the parser returns an empty document, and the builder returns a record of
  defaults, not the absent result.
\<close>

lemma unreachable_page_still_builds:
  "fetch_car_details world_forbidden ''audi'' =
     Some (build_car ''audi'' empty_page (legacy_details empty_page) 0 None (None, None))"
proof -
  have html: "fst (fetch_html (site world_forbidden ''audi'') 2 1) = []"
    by (simp add: world_forbidden_def fetch_html_def always_forbidden_def upt_rec)
  have parsed: "parse world_forbidden (fst (fetch_html (site world_forbidden ''audi'') 2 1))
                  = Inr empty_page"
    unfolding html by (simp add: world_forbidden_def pages_def)
  have vin: "fst (extract_vin_with_playwright (sessions world_forbidden ''audi'')) = None"
    by (simp add: world_forbidden_def extract_vin_no_vin)
  show ?thesis
    by (simp add: fetch_car_details_def fetch_car_details_body_parsed [OF parsed]
        empty_page_price empty_page_indicator vin)
qed

end
